theory Spec2Isabelle
  imports Main "HOL-Library.AList" "HOL-Library.Sublist"
begin

section \<open>The Starlette RemoteApp of authlib: data model\<close>

text \<open>
  The development embeds \<^verbatim>\<open>authlib/integrations/starlette_client/remote_app.py\<close>.
  Python values that travel through dictionaries and keyword arguments (metadata entries,
  tokens, parameters) are JSON values, with \<open>JNull\<close> for \<^verbatim>\<open>None\<close> and integers for
  numbers; a Python \<^verbatim>\<open>dict\<close> is an association list in insertion order. Keyword
  arguments and decoded JSON objects have string keys (\<open>dict\<close>); a dictionary that
  \<^verbatim>\<open>update\<close> fills from a decoded body can get any hashable key (\<open>pydict\<close>).
\<close>

datatype json =
    JNull
  | JBool bool
  | JNum int
  | JStr string
  | JArr "json list"
  | JObj "(string \<times> json) list"

type_synonym dict = "(string \<times> json) list"

text \<open>Python's truth value of a JSON value, of an optional string and of an optional dict.\<close>

fun truthy :: "json \<Rightarrow> bool" where
  "truthy JNull = False"
| "truthy (JBool b) = b"
| "truthy (JNum n) = (n \<noteq> 0)"
| "truthy (JStr s) = (s \<noteq> [])"
| "truthy (JArr xs) = (xs \<noteq> [])"
| "truthy (JObj kvs) = (kvs \<noteq> [])"

definition str_truthy :: "string option \<Rightarrow> bool" where
  "str_truthy v = (case v of None \<Rightarrow> False | Some s \<Rightarrow> s \<noteq> [])"

definition dict_truthy :: "dict option \<Rightarrow> bool" where
  "dict_truthy v = (case v of None \<Rightarrow> False | Some d \<Rightarrow> d \<noteq> [])"

text \<open>An attribute that holds a string or None, as the value an expression reads.\<close>

definition str_json :: "string option \<Rightarrow> json" where
  "str_json v = (case v of None \<Rightarrow> JNull | Some s \<Rightarrow> JStr s)"

text \<open>
  \<^verbatim>\<open>d.update(e)\<close>: the entries of \<open>e\<close> are stored in order; a key that \<open>d\<close> has keeps
  its place and takes the new value, a new key is appended.
\<close>

definition dict_update :: "dict \<Rightarrow> dict \<Rightarrow> dict" where
  "dict_update d e = fold (\<lambda>(k, v). AList.update k v) e d"

text \<open>\<^verbatim>\<open>d.get(k)\<close>, with None for a missing key, and \<^verbatim>\<open>k in d\<close>.\<close>

definition dict_get :: "dict \<Rightarrow> string \<Rightarrow> json" where
  "dict_get d k = (case map_of d k of None \<Rightarrow> JNull | Some v \<Rightarrow> v)"

definition has_key :: "dict \<Rightarrow> string \<Rightarrow> bool" where
  "has_key d k = (case map_of d k of None \<Rightarrow> False | Some v \<Rightarrow> True)"

datatype error =
    MissingRequestTokenError
  | MissingTokenError
  | RuntimeError string
  | TransportError string
  | JSONDecodeError
  | HookError string
  | JoseError string
  | TypeError
  | ValueError
  | StateMismatch
  | InvalidIDToken

subsection \<open>Dictionaries with any hashable key\<close>

text \<open>
  Among decoded JSON values, lists and objects are not hashable. \<^verbatim>\<open>True\<close> and
  \<^verbatim>\<open>False\<close> are the same keys as 1 and 0. \<^verbatim>\<open>d[k] = v\<close> replaces the value of an
  equal key, which keeps its place and its key object, or appends the entry.
\<close>

type_synonym pydict = "(json \<times> json) list"

fun hashable :: "json \<Rightarrow> bool" where
  "hashable (JArr xs) = False"
| "hashable (JObj kvs) = False"
| "hashable j = True"

fun norm_key :: "json \<Rightarrow> json" where
  "norm_key (JBool b) = JNum (if b then 1 else 0)"
| "norm_key j = j"

fun py_setitem :: "json \<Rightarrow> json \<Rightarrow> pydict \<Rightarrow> pydict" where
  "py_setitem k v [] = [(k, v)]"
| "py_setitem k v (p # d) =
     (if norm_key (fst p) = norm_key k then (fst p, v) # d else p # py_setitem k v d)"

definition of_dict :: "dict \<Rightarrow> pydict" where
  "of_dict d = map (\<lambda>(k, v). (JStr k, v)) d"

definition pd_get :: "pydict \<Rightarrow> string \<Rightarrow> json" where
  "pd_get d k = (case map_of d (JStr k) of None \<Rightarrow> JNull | Some v \<Rightarrow> v)"

definition pd_has_key :: "pydict \<Rightarrow> string \<Rightarrow> bool" where
  "pd_has_key d k = (case map_of d (JStr k) of None \<Rightarrow> False | Some v \<Rightarrow> True)"

text \<open>
  \<^verbatim>\<open>f(**d)\<close> raises TypeError (keywords must be strings) unless every key of \<open>d\<close> is
  a string.
\<close>

definition string_keys :: "pydict \<Rightarrow> bool" where
  "string_keys d = list_all (\<lambda>(k, v). case k of JStr s \<Rightarrow> True | _ \<Rightarrow> False) d"

text \<open>
  \<^verbatim>\<open>d.update(x)\<close> for a decoded JSON value \<open>x\<close>. An object is merged entry by entry.
  A list or a string is read as a sequence of pairs: each item must itself be a sequence
  of length two (a two-element list, a two-character string, or an object with two
  keys, which gives its keys), else ValueError, or TypeError when the item is no
  sequence or the key is not hashable; the entries before a bad item stay in the
  dictionary. None, a boolean or a number is not iterable: TypeError. The result is the
  exception, if any, and the dictionary as the call left it.
\<close>

fun pair_of_item :: "json \<Rightarrow> error + json \<times> json" where
  "pair_of_item (JArr [k, v]) = Inr (k, v)"
| "pair_of_item (JArr xs) = Inl ValueError"
| "pair_of_item (JStr [a, b]) = Inr (JStr [a], JStr [b])"
| "pair_of_item (JStr s) = Inl ValueError"
| "pair_of_item (JObj [(k1, v1), (k2, v2)]) = Inr (JStr k1, JStr k2)"
| "pair_of_item (JObj kvs) = Inl ValueError"
| "pair_of_item j = Inl TypeError"

fun update_seq :: "pydict \<Rightarrow> json list \<Rightarrow> error option \<times> pydict" where
  "update_seq d [] = (None, d)"
| "update_seq d (x # xs) =
     (case pair_of_item x of
        Inl e \<Rightarrow> (Some e, d)
      | Inr (k, v) \<Rightarrow> if hashable k then update_seq (py_setitem k v d) xs else (Some TypeError, d))"

definition py_update :: "pydict \<Rightarrow> json \<Rightarrow> error option \<times> pydict" where
  "py_update d x =
     (case x of
        JObj kvs \<Rightarrow> (None, fold (\<lambda>(k, v). py_setitem (JStr k) v) kvs d)
      | JArr xs \<Rightarrow> update_seq d xs
      | JStr s \<Rightarrow> update_seq d (map (\<lambda>c. JStr [c]) s)
      | _ \<Rightarrow> (Some TypeError, d))"

text \<open>
  The inbound Starlette request, as far as the client reads it: the query parameters of
  the callback, the ASGI scope, and the session in which the integration keeps the data of
  a pending authorization.
\<close>

record request =
  query_params :: "(string \<times> string) list"
  scope :: dict
  session :: dict

text \<open>
  The keyword arguments of \<^verbatim>\<open>RemoteApp.request\<close>: the inbound request under the key
  \<^verbatim>\<open>request\<close> (the one value that is not JSON; a request object is true in a
  condition, an absent one is None), and the others, among them \<^verbatim>\<open>withhold_token\<close>.
\<close>

record req_kwargs =
  kw_request :: "request option"
  kw_rest :: dict

text \<open>
  What the program does that the provider or the integration can observe: the calls of the
  OAuth client that go to the network, and the calls of the token-resolution hook. Each
  client call records the endpoint, the parameters, and the client's token and
  redirect URI where the call uses them.
\<close>

datatype event =
    ClientRequest string string "dict option" req_kwargs
  | FetchToken json dict json
  | FetchAccessToken json dict pydict json
  | FetchRequestToken json dict json
  | HookCall request

fun is_network_call :: "event \<Rightarrow> bool" where
  "is_network_call (HookCall r) = False"
| "is_network_call e = True"

fun is_hook_call :: "event \<Rightarrow> bool" where
  "is_hook_call (HookCall r) = True"
| "is_hook_call e = False"

fun is_token_exchange :: "event \<Rightarrow> bool" where
  "is_token_exchange (FetchToken ep kw ru) = True"
| "is_token_exchange (FetchAccessToken ep kw tok ru) = True"
| "is_token_exchange e = False"

text \<open>
  A response, as far as the file reads it: \<^verbatim>\<open>resp.json()\<close> gives a JSON value of any
  kind, or raises when the body does not decode (\<open>None\<close>).
\<close>

record response =
  status_code :: nat
  json_body :: "json option"

text \<open>
  The attribute \<^verbatim>\<open>_fetch_token\<close>: None, an object that is not callable, a plain
  function or a coroutine function. A hook gets the request and returns a token or None,
  or raises.
\<close>

datatype hook =
    NoHook
  | NotCallable
  | SyncHook "request \<Rightarrow> error + dict option"
  | AsyncHook "request \<Rightarrow> error + dict option"

datatype claims_cls = CodeIDToken | ImplicitIDToken

record jws =
  jws_header :: dict
  jws_payload :: dict
  jws_signature :: string

text \<open>
  The collaborators the file imports and does not define, as parameters: the HTTP client
  that \<^verbatim>\<open>_get_oauth_client\<close> returns (its answers may depend on the calls made so
  far; building the client neither fails nor calls the network),
  \<^verbatim>\<open>urlparse.urljoin\<close>, the generator of the state parameter, and the JOSE
  primitives (\<^verbatim>\<open>jwk.loads\<close>, compact deserialisation, signature and claims
  validation). Where the file would hand a value of the wrong kind to a collaborator (a
  \<^verbatim>\<open>jwks_uri\<close> that is not a string), the model reports \<open>TypeError\<close>.
\<close>

record env =
  transport :: "event list \<Rightarrow> string \<Rightarrow> string \<Rightarrow> dict option \<Rightarrow> error + response"
  token_endpoint :: "event list \<Rightarrow> json \<Rightarrow> dict \<Rightarrow> error + dict"
  oauth1_token_endpoint :: "event list \<Rightarrow> json \<Rightarrow> dict \<Rightarrow> pydict \<Rightarrow> error + dict"
  oauth1_request_token :: "event list \<Rightarrow> json \<Rightarrow> dict \<Rightarrow> error + dict"
  oauth1_authorization_url :: "json \<Rightarrow> dict \<Rightarrow> dict \<Rightarrow> string"
  urljoin :: "string \<Rightarrow> string \<Rightarrow> string"
  generate_token :: "event list \<Rightarrow> string"
  jws_parse :: "json \<Rightarrow> jws option"
  jwk_loads :: "json \<Rightarrow> json \<Rightarrow> error + json"
  verify_signature :: "json \<Rightarrow> jws \<Rightarrow> bool"
  claims_validate :: "claims_cls \<Rightarrow> json \<Rightarrow> dict \<Rightarrow> dict \<Rightarrow> nat \<Rightarrow> bool"

text \<open>
  The attributes of a RemoteApp that the methods read (the leading underscore of
  \<^verbatim>\<open>_server_metadata_url\<close> and \<^verbatim>\<open>_fetch_token\<close> dropped). The methods assign
  only \<open>server_metadata_url\<close> and \<open>server_metadata\<close>.
\<close>

record remote_app =
  client_id :: string
  request_token_url :: "string option"
  request_token_params :: "dict option"
  authorize_url :: "string option"
  authorize_params :: "dict option"
  access_token_url :: "string option"
  access_token_params :: "dict option"
  api_base_url :: "string option"
  server_metadata_url :: "string option"
  server_metadata :: pydict
  fetch_token :: hook

text \<open>
  A method runs in a world: the RemoteApp it mutates and the events so far. It returns
  the value or the exception raised, and the world as the call left it (an exception
  keeps the assignments made before it).
\<close>

record world =
  app :: remote_app
  trace :: "event list"

type_synonym 'a io = "world \<Rightarrow> (error + 'a) \<times> world"

definition io_bind :: "'a io \<Rightarrow> ('a \<Rightarrow> 'b io) \<Rightarrow> 'b io" where
  "io_bind m f w = (case m w of (Inl e, w') \<Rightarrow> (Inl e, w') | (Inr a, w') \<Rightarrow> f a w')"

definition emit :: "event \<Rightarrow> world \<Rightarrow> world" where
  "emit e w = w\<lparr>trace := trace w @ [e]\<rparr>"

definition network_calls :: "world \<Rightarrow> event list" where
  "network_calls w = filter is_network_call (trace w)"

definition hook_calls :: "world \<Rightarrow> event list" where
  "hook_calls w = filter is_hook_call (trace w)"

definition token_exchanges :: "world \<Rightarrow> event list" where
  "token_exchanges w = filter is_token_exchange (trace w)"

section \<open>The authenticated request gateway\<close>

text \<open>\<^verbatim>\<open>client.request(method, url, **kwargs)\<close> with the client's token as it stands.\<close>

definition client_request ::
  "env \<Rightarrow> string \<Rightarrow> string \<Rightarrow> dict option \<Rightarrow> req_kwargs \<Rightarrow> response io" where
  "client_request env method url tok kw w =
     (transport env (trace w) method url tok, emit (ClientRequest method url tok kw) w)"

text \<open>
  The token-resolution step of \<^verbatim>\<open>request\<close> (lines 158 to 161): the hook is called
  when it is a coroutine function or a callable; any other attribute leaves the token
  None.
\<close>

definition call_fetch_token :: "hook \<Rightarrow> request \<Rightarrow> (dict option) io" where
  "call_fetch_token h r w =
     (case h of
        AsyncHook f \<Rightarrow> (f r, emit (HookCall r) w)
      | SyncHook f \<Rightarrow> (f r, emit (HookCall r) w)
      | NoHook \<Rightarrow> (Inr None, w)
      | NotCallable \<Rightarrow> (Inr None, w))"

definition is_absolute :: "string \<Rightarrow> bool" where
  "is_absolute url = (prefix ''https://'' url \<or> prefix ''http://'' url)"

definition resolve_url :: "env \<Rightarrow> remote_app \<Rightarrow> string \<Rightarrow> string" where
  "resolve_url env a url =
     (case api_base_url a of
        None \<Rightarrow> url
      | Some base \<Rightarrow> if base \<noteq> [] \<and> \<not> is_absolute url then urljoin env base url else url)"

definition request :: "env \<Rightarrow> string \<Rightarrow> string \<Rightarrow> dict option \<Rightarrow> req_kwargs \<Rightarrow> response io" where
  "request env method url0 token kwargs w =
     (let url = resolve_url env (app w) url0
      in if truthy (dict_get (kw_rest kwargs) ''withhold_token'')
         then client_request env method url None kwargs w
         else
           let kwargs' = kwargs\<lparr>kw_request := None\<rparr>;
               resolve = (case (token, kw_request kwargs) of
                            (None, Some r) \<Rightarrow> call_fetch_token (fetch_token (app w)) r
                          | (t, r) \<Rightarrow> (\<lambda>w'. (Inr t, w')))
           in io_bind resolve
                (\<lambda>tok w'. case tok of
                     None \<Rightarrow> (Inl MissingTokenError, w')
                   | Some t \<Rightarrow> client_request env method url (Some t) kwargs' w') w)"

section \<open>The metadata resolver\<close>

text \<open>The keyword arguments of the call in \<^verbatim>\<open>_fetch_server_metadata\<close>.\<close>

definition withhold_kwargs :: req_kwargs where
  "withhold_kwargs = \<lparr>kw_request = None, kw_rest = [(''withhold_token'', JBool True)]\<rparr>"

definition fetch_server_metadata :: "env \<Rightarrow> string \<Rightarrow> json io" where
  "fetch_server_metadata env url =
     io_bind (request env ''GET'' url None withhold_kwargs)
       (\<lambda>resp w. case json_body resp of
                    None \<Rightarrow> (Inl JSONDecodeError, w)
                  | Some body \<Rightarrow> (Inr body, w))"

text \<open>
  \<^verbatim>\<open>_load_server_metadata\<close>: the URL is set to None once the fetch has returned
  (line 25), then the body is merged (line 26); a body that \<^verbatim>\<open>update\<close> rejects raises
  with the URL already cleared.
\<close>

definition load_server_metadata :: "env \<Rightarrow> pydict io" where
  "load_server_metadata env w =
     (case server_metadata_url (app w) of
        None \<Rightarrow> (Inr (server_metadata (app w)), w)
      | Some url \<Rightarrow>
          if url = [] then (Inr (server_metadata (app w)), w)
          else io_bind (fetch_server_metadata env url)
             (\<lambda>metadata w1.
                let w2 = w1\<lparr>app := (app w1)\<lparr>server_metadata_url := None\<rparr>\<rparr>;
                    merge = py_update (server_metadata (app w2)) metadata;
                    w3 = w2\<lparr>app := (app w2)\<lparr>server_metadata := snd merge\<rparr>\<rparr>
                in case fst merge of
                     Some e \<Rightarrow> (Inl e, w3)
                   | None \<Rightarrow> (Inr (server_metadata (app w3)), w3)) w)"

text \<open>
  The two RuntimeErrors of the file, \<^verbatim>\<open>Missing "jwks_uri" in metadata\<close> and
  \<^verbatim>\<open>Missing "authorize_url" value\<close> (\<open>CHR 0x22\<close> is the double quote).
\<close>

definition missing_jwks_uri :: error where
  "missing_jwks_uri = RuntimeError (''Missing '' @ CHR 0x22 # ''jwks_uri'' @ CHR 0x22 # '' in metadata'')"

definition missing_authorize_url :: error where
  "missing_authorize_url = RuntimeError (''Missing '' @ CHR 0x22 # ''authorize_url'' @ CHR 0x22 # '' value'')"

definition fetch_jwk_set :: "env \<Rightarrow> bool \<Rightarrow> json io" where
  "fetch_jwk_set env force =
     io_bind (load_server_metadata env)
       (\<lambda>metadata w.
          let jwk_set = pd_get metadata ''jwks'' in
          if truthy jwk_set \<and> \<not> force then (Inr jwk_set, w)
          else
            let uri = pd_get metadata ''jwks_uri'' in
            if \<not> truthy uri
            then (Inl missing_jwks_uri, w)
            else (case uri of
                    JStr u \<Rightarrow>
                      io_bind (fetch_server_metadata env u)
                        (\<lambda>body w1.
                           (Inr body,
                            w1\<lparr>app := (app w1)\<lparr>server_metadata :=
                                  py_setitem (JStr ''jwks'') body (server_metadata (app w1))\<rparr>\<rparr>)) w
                  | _ \<Rightarrow> (Inl TypeError, w)))"

section \<open>The OAuth flow drivers\<close>

definition generate_access_token_params :: "remote_app \<Rightarrow> request \<Rightarrow> dict" where
  "generate_access_token_params a r =
     (if str_truthy (request_token_url a) then scope r
      else [(''code'', str_json (map_of (query_params r) ''code'')),
            (''state'', str_json (map_of (query_params r) ''state''))])"

text \<open>
  \<^verbatim>\<open>_create_oauth1_authorization_url\<close>: the request token is fetched with the static
  request-token parameters, then the client (which now holds the request token) builds
  the URL.
\<close>

datatype authorization_url = UrlString string | OAuth2Url json string json json dict

record authorization_data =
  ad_url :: authorization_url
  ad_request_token :: "dict option"
  ad_state :: "json option"

definition client_fetch_request_token :: "env \<Rightarrow> json \<Rightarrow> dict \<Rightarrow> json \<Rightarrow> dict io" where
  "client_fetch_request_token env url params redirect_uri w =
     (oauth1_request_token env (trace w) url params,
      emit (FetchRequestToken url params redirect_uri) w)"

definition create_oauth1_authorization_url ::
  "env \<Rightarrow> json \<Rightarrow> json \<Rightarrow> dict \<Rightarrow> authorization_data io" where
  "create_oauth1_authorization_url env redirect_uri authorization_endpoint kwargs w =
     (let params = (if dict_truthy (request_token_params (app w))
                    then dict_update [] (case request_token_params (app w) of Some p \<Rightarrow> p | None \<Rightarrow> [])
                    else [])
      in io_bind
           (client_fetch_request_token env (str_json (request_token_url (app w))) params redirect_uri)
           (\<lambda>token w1.
              (Inr \<lparr>ad_url = UrlString (oauth1_authorization_url env authorization_endpoint token kwargs),
                    ad_request_token = Some token, ad_state = None\<rparr>, w1)) w)"

text \<open>
  Modelled from the spec: \<^verbatim>\<open>_create_oauth2_authorization_url\<close> of BaseApp and the
  OAuth 2 client's URL builder, which are not in the source files. The spec (4.3): it
  ``builds a URL containing client_id, redirect_uri, state (generated if absent), and any
  merged params''. The URL is kept structured: endpoint, client id, redirect URI, state
  and parameters.
\<close>

definition create_oauth2_authorization_url ::
  "env \<Rightarrow> json \<Rightarrow> json \<Rightarrow> dict \<Rightarrow> authorization_data io" where
  "create_oauth2_authorization_url env redirect_uri authorization_endpoint kwargs w =
     (let state = (if dict_get kwargs ''state'' = JNull then JStr (generate_token env (trace w))
                   else dict_get kwargs ''state'')
      in (Inr \<lparr>ad_url = OAuth2Url authorization_endpoint (client_id (app w)) redirect_uri state kwargs,
               ad_request_token = None, ad_state = Some state\<rparr>, w))"

text \<open>
  \<^verbatim>\<open>create_authorization_url\<close>. The client is built from \<^verbatim>\<open>**metadata\<close> (line 80)
  after the parameters are merged.
\<close>

definition create_authorization_url :: "env \<Rightarrow> json \<Rightarrow> dict \<Rightarrow> authorization_data io" where
  "create_authorization_url env redirect_uri kwargs =
     io_bind (load_server_metadata env)
       (\<lambda>metadata w.
          let ep0 = str_json (authorize_url (app w));
              authorization_endpoint =
                (if \<not> truthy ep0 \<and> \<not> str_truthy (request_token_url (app w))
                 then pd_get metadata ''authorization_endpoint'' else ep0)
          in if \<not> truthy authorization_endpoint
             then (Inl missing_authorize_url, w)
             else
               let kwargs' = (case authorize_params (app w) of
                                None \<Rightarrow> kwargs
                              | Some p \<Rightarrow> if p \<noteq> [] then dict_update kwargs p else kwargs)
               in if \<not> string_keys metadata then (Inl TypeError, w)
                  else if str_truthy (request_token_url (app w))
                  then create_oauth1_authorization_url env redirect_uri authorization_endpoint kwargs' w
                  else create_oauth2_authorization_url env redirect_uri authorization_endpoint kwargs' w)"

definition client_fetch_token :: "env \<Rightarrow> json \<Rightarrow> dict \<Rightarrow> json \<Rightarrow> dict io" where
  "client_fetch_token env endpoint kwargs redirect_uri w =
     (token_endpoint env (trace w) endpoint kwargs, emit (FetchToken endpoint kwargs redirect_uri) w)"

definition client_fetch_access_token :: "env \<Rightarrow> json \<Rightarrow> dict \<Rightarrow> pydict \<Rightarrow> json \<Rightarrow> dict io" where
  "client_fetch_access_token env endpoint kwargs tok redirect_uri w =
     (oauth1_token_endpoint env (trace w) endpoint kwargs tok,
      emit (FetchAccessToken endpoint kwargs tok redirect_uri) w)"

text \<open>
  \<^verbatim>\<open>fetch_access_token(redirect_uri=None, request_token=None, **params)\<close>. The
  client is built from \<^verbatim>\<open>**metadata\<close> (line 126) before the request token is looked
  at; the OAuth 1 token is an empty dictionary updated with the request token, then with
  the parameters.
\<close>

definition fetch_access_token :: "env \<Rightarrow> json \<Rightarrow> json \<Rightarrow> dict \<Rightarrow> dict io" where
  "fetch_access_token env redirect_uri request_token params =
     io_bind (load_server_metadata env)
       (\<lambda>metadata w.
          let ep0 = str_json (access_token_url (app w));
              endpoint =
                (if \<not> truthy ep0 \<and> \<not> str_truthy (request_token_url (app w))
                 then pd_get metadata ''token_endpoint'' else ep0)
          in if \<not> string_keys metadata then (Inl TypeError, w)
             else if str_truthy (request_token_url (app w))
             then
               (if request_token = JNull then (Inl MissingRequestTokenError, w)
                else (case fst (py_update [] request_token) of
                        Some e \<Rightarrow> (Inl e, w)
                      | None \<Rightarrow>
                          let token = snd (py_update (snd (py_update [] request_token)) (JObj params));
                              kwargs = (if dict_truthy (access_token_params (app w))
                                        then (case access_token_params (app w) of Some p \<Rightarrow> p | None \<Rightarrow> [])
                                        else [])
                          in client_fetch_access_token env endpoint kwargs token redirect_uri w))
             else
               let kwargs0 = (case access_token_params (app w) of
                                None \<Rightarrow> []
                              | Some p \<Rightarrow> if p \<noteq> [] then dict_update [] p else []);
                   kwargs = dict_update kwargs0 params
               in client_fetch_token env endpoint kwargs redirect_uri w)"

text \<open>
  Modelled from the spec: \<^verbatim>\<open>_get_session_data\<close> of BaseApp, which is not in the source
  files. The spec (6): the session store's \<^verbatim>\<open>load(key)\<close> gives the value or absent.
\<close>

definition get_session_data :: "request \<Rightarrow> string \<Rightarrow> json" where
  "get_session_data r k = dict_get (session r) k"

text \<open>
  Modelled from the spec: \<^verbatim>\<open>retrieve_access_token_params\<close> of BaseApp, which is not in
  the source files. The spec (4.2, 4.3, 6): the parameters are retrieved from the callback
  (\<^verbatim>\<open>_generate_access_token_params\<close>); for OAuth 1 the request token persisted in step 1
  is added; for OAuth 2 the \<^verbatim>\<open>state\<close> echoed in the callback query is ``matched against
  persisted state -- mismatch is a hard failure'' (\<open>StateMismatch\<close>), and the persisted
  redirect URI is added.
\<close>

definition retrieve_access_token_params :: "remote_app \<Rightarrow> request \<Rightarrow> error + dict" where
  "retrieve_access_token_params a r =
     (let params = generate_access_token_params a r
      in if str_truthy (request_token_url a)
         then Inr (AList.update ''request_token'' (get_session_data r ''request_token'') params)
         else if dict_get params ''state'' \<noteq> get_session_data r ''state''
              then Inl StateMismatch
              else Inr (AList.update ''redirect_uri'' (get_session_data r ''redirect_uri'') params))"

text \<open>
  \<^verbatim>\<open>fetch_access_token(**params)\<close>: the keys \<^verbatim>\<open>redirect_uri\<close> and
  \<^verbatim>\<open>request_token\<close> bind the two named parameters, the others are \<^verbatim>\<open>**params\<close>.
\<close>

definition authorize_access_token :: "env \<Rightarrow> request \<Rightarrow> dict \<Rightarrow> dict io" where
  "authorize_access_token env r kwargs w =
     (case retrieve_access_token_params (app w) r of
        Inl e \<Rightarrow> (Inl e, w)
      | Inr params0 \<Rightarrow>
          let params = dict_update params0 kwargs
          in fetch_access_token env (dict_get params ''redirect_uri'') (dict_get params ''request_token'')
               (filter (\<lambda>(k, v). k \<noteq> ''redirect_uri'' \<and> k \<noteq> ''request_token'') params) w)"

section \<open>The ID token verifier\<close>

text \<open>
  Modelled from the spec: \<^verbatim>\<open>JsonWebToken(alg_values).decode\<close> of authlib.jose, which is
  not in the source files. The spec (4.4, 7): ``the allow-list MUST be enforced; an ID
  token signed with an algorithm outside this set must be rejected''; the signing key is
  resolved by the \<^verbatim>\<open>key\<close> callback from the header; the signature is validated; ``any
  validation failure raises a distinct InvalidIDToken error''. The algorithm is checked
  first, so that the rejection does not depend on the key or the signature.
\<close>

definition alg_allowed :: "json \<Rightarrow> json \<Rightarrow> bool" where
  "alg_allowed alg_values alg = (case alg_values of JArr xs \<Rightarrow> alg \<in> set xs | _ \<Rightarrow> False)"

definition jwt_decode ::
  "env \<Rightarrow> json \<Rightarrow> (dict \<Rightarrow> dict \<Rightarrow> error + json) \<Rightarrow> json \<Rightarrow> error + dict" where
  "jwt_decode env alg_values load_key id_token =
     (case jws_parse env id_token of
        None \<Rightarrow> Inl InvalidIDToken
      | Some j \<Rightarrow>
          if \<not> alg_allowed alg_values (dict_get (jws_header j) ''alg'') then Inl InvalidIDToken
          else (case load_key (jws_header j) (jws_payload j) of
                  Inl e \<Rightarrow> Inl e
                | Inr key \<Rightarrow>
                    if verify_signature env key j then Inr (jws_payload j) else Inl InvalidIDToken))"

text \<open>
  The algorithms \<^verbatim>\<open>parse_id_token\<close> hands to \<^verbatim>\<open>JsonWebToken\<close> (lines 203 to 205).
\<close>

definition id_token_alg_values :: "pydict \<Rightarrow> json" where
  "id_token_alg_values metadata =
     (let alg_values = pd_get metadata ''id_token_signing_alg_values_supported''
      in if \<not> truthy alg_values then JArr [JStr ''RS256''] else alg_values)"

text \<open>
  The claims class, parameters and options that \<^verbatim>\<open>parse_id_token\<close> hands to the
  decoder (lines 188 to 201).
\<close>

definition claims_cls_of :: "dict \<Rightarrow> claims_cls" where
  "claims_cls_of token = (if has_key token ''access_token'' then CodeIDToken else ImplicitIDToken)"

definition claims_params_of :: "remote_app \<Rightarrow> request \<Rightarrow> dict \<Rightarrow> dict" where
  "claims_params_of a r token =
     (let claims_params = [(''nonce'', get_session_data r ''nonce''), (''client_id'', JStr (client_id a))]
      in if has_key token ''access_token''
         then AList.update ''access_token'' (dict_get token ''access_token'') claims_params
         else claims_params)"

definition claims_options_of :: "json \<Rightarrow> pydict \<Rightarrow> json" where
  "claims_options_of claims_options metadata =
     (if claims_options = JNull \<and> pd_has_key metadata ''issuer''
      then JObj [(''iss'', JObj [(''values'', JArr [pd_get metadata ''issuer''])])]
      else claims_options)"

text \<open>
  \<^verbatim>\<open>parse_id_token\<close>. The closure \<^verbatim>\<open>load_key\<close> looks the key id up in the JWK set
  that the one call of \<^verbatim>\<open>_fetch_jwk_set()\<close> returned. \<^verbatim>\<open>claims.validate(leeway=120)\<close>
  is the parameter \<open>claims_validate\<close>; its failure is the spec's \<open>InvalidIDToken\<close>.
\<close>

definition parse_id_token :: "env \<Rightarrow> request \<Rightarrow> dict \<Rightarrow> json \<Rightarrow> (dict option) io" where
  "parse_id_token env r token claims_options w =
     (if \<not> has_key token ''id_token'' then (Inr None, w)
      else
        let claims_params = claims_params_of (app w) r token;
            cls = claims_cls_of token
        in io_bind (load_server_metadata env)
             (\<lambda>metadata.
                let opts = claims_options_of claims_options metadata;
                    alg_values = id_token_alg_values metadata
                in io_bind (fetch_jwk_set env False)
                     (\<lambda>jwk_set w2.
                        let load_key = (\<lambda>header payload. jwk_loads env jwk_set (dict_get header ''kid''))
                        in (case jwt_decode env alg_values load_key (dict_get token ''id_token'') of
                              Inl e \<Rightarrow> (Inl e, w2)
                            | Inr claims \<Rightarrow>
                                if claims_validate env cls opts claims_params claims 120
                                then (Inr (Some claims), w2)
                                else (Inl InvalidIDToken, w2)))) w)"

section \<open>A concrete provider\<close>

text \<open>
  An OpenID Connect provider at \<^verbatim>\<open>https://idp.example\<close>, used to run the methods on
  concrete inputs. Its discovery document names the endpoints and the JWKS URI; its JWK
  set holds the key \<^verbatim>\<open>k2\<close>. Every other URL is unreachable.
\<close>

definition discovery_entries :: dict where
  "discovery_entries =
     [(''issuer'', JStr ''https://idp.example''),
      (''authorization_endpoint'', JStr ''https://idp.example/authorize''),
      (''token_endpoint'', JStr ''https://idp.example/token''),
      (''jwks_uri'', JStr ''https://idp.example/jwks'')]"

definition discovery_document :: json where
  "discovery_document = JObj discovery_entries"

definition idp_transport :: "event list \<Rightarrow> string \<Rightarrow> string \<Rightarrow> dict option \<Rightarrow> error + response" where
  "idp_transport tr method url tok =
     (if url = ''https://idp.example/.well-known/openid-configuration''
      then Inr \<lparr>status_code = 200, json_body = Some discovery_document\<rparr>
      else if url = ''https://idp.example/jwks''
      then Inr \<lparr>status_code = 200, json_body = Some (JObj [(''k2'', JStr ''key-two'')])\<rparr>
      else Inl (TransportError ''unreachable''))"

text \<open>
  Modelled from the spec: \<^verbatim>\<open>jwk.loads\<close> of authlib.jose, which is not in the source
  files. The spec (3): a JWK set is a ``mapping of key id to public key material''; the
  key is resolved by key id, and a key id that the set does not hold is an error.
\<close>

definition jwk_loads_by_kid :: "json \<Rightarrow> json \<Rightarrow> error + json" where
  "jwk_loads_by_kid jwk_set kid =
     (case jwk_set of
        JObj keys \<Rightarrow>
          (case kid of
             JStr k \<Rightarrow> (case map_of keys k of
                          Some key \<Rightarrow> Inr key
                        | None \<Rightarrow> Inl (JoseError ''key not found''))
           | _ \<Rightarrow> Inl (JoseError ''key not found''))
      | _ \<Rightarrow> Inl (JoseError ''invalid key set''))"

text \<open>
  In the concrete provider a serialised token is written as the JSON object of its header,
  payload and signature, and a signature is valid when it names the key.
\<close>

definition idp_jws_parse :: "json \<Rightarrow> jws option" where
  "idp_jws_parse t =
     (case t of
        JObj [(h, JObj header), (p, JObj payload), (s, JStr sig)] \<Rightarrow>
          Some \<lparr>jws_header = header, jws_payload = payload, jws_signature = sig\<rparr>
      | _ \<Rightarrow> None)"

definition idp_env :: env where
  "idp_env =
     \<lparr>transport = idp_transport,
      token_endpoint = (\<lambda>tr ep kw. Inr [(''access_token'', JStr ''at-1''), (''token_type'', JStr ''Bearer'')]),
      oauth1_token_endpoint = (\<lambda>tr ep kw tok. Inr [(''oauth_token'', JStr ''ot-1'')]),
      oauth1_request_token = (\<lambda>tr url params. Inr [(''oauth_token'', JStr ''rt-1'')]),
      oauth1_authorization_url = (\<lambda>ep tok kw. ''https://idp.example/oauth1/authorize?oauth_token=rt-1''),
      urljoin = (\<lambda>base url. base @ url),
      generate_token = (\<lambda>tr. ''generated-state''),
      jws_parse = idp_jws_parse,
      jwk_loads = jwk_loads_by_kid,
      verify_signature = (\<lambda>key j. JStr (jws_signature j) = key),
      claims_validate = (\<lambda>cls opts params claims leeway. True)\<rparr>"

text \<open>A provider whose network is down.\<close>

definition offline_env :: env where
  "offline_env = idp_env\<lparr>transport := (\<lambda>tr method url tok. Inl (TransportError ''unreachable''))\<rparr>"

text \<open>A provider that answers every request with the body \<^verbatim>\<open>null\<close>.\<close>

definition null_body_env :: env where
  "null_body_env =
     idp_env\<lparr>transport := (\<lambda>tr method url tok. Inr \<lparr>status_code = 200, json_body = Some JNull\<rparr>)\<rparr>"

definition blank_app :: remote_app where
  "blank_app =
     \<lparr>client_id = ''cid'',
      request_token_url = None, request_token_params = None,
      authorize_url = None, authorize_params = None,
      access_token_url = None, access_token_params = None,
      api_base_url = None,
      server_metadata_url = None, server_metadata = [],
      fetch_token = NoHook\<rparr>"

text \<open>An OpenID Connect client configured by discovery, before its first call.\<close>

definition oidc_world :: world where
  "oidc_world =
     \<lparr>app = blank_app\<lparr>server_metadata_url :=
               Some ''https://idp.example/.well-known/openid-configuration''\<rparr>,
      trace = []\<rparr>"

text \<open>
  The callback request of an OAuth 2 authorization: the provider echoes the code and the
  state; the session holds what the redirect stored.
\<close>

definition callback_request :: request where
  "callback_request =
     \<lparr>query_params = [(''code'', ''abc''), (''state'', ''s1'')],
      scope = [(''type'', JStr ''http'')],
      session = [(''state'', JStr ''s1''), (''redirect_uri'', JStr ''https://app/cb''),
                 (''nonce'', JStr ''n-1'')]\<rparr>"

text \<open>A hook that finds a token for every request, and one that finds none.\<close>

definition session_token_hook :: hook where
  "session_token_hook = SyncHook (\<lambda>r. Inr (Some [(''access_token'', JStr ''at-1'')]))"

definition empty_hook :: hook where
  "empty_hook = AsyncHook (\<lambda>r. Inr None)"

definition hooked_world :: "hook \<Rightarrow> world" where
  "hooked_world h = \<lparr>app = blank_app\<lparr>fetch_token := h\<rparr>, trace = []\<rparr>"

text \<open>The one request of a discovery fetch, as it stands in the trace.\<close>

definition discovery_call :: "env \<Rightarrow> world \<Rightarrow> string \<Rightarrow> event" where
  "discovery_call env w url = ClientRequest ''GET'' (resolve_url env (app w) url) None withhold_kwargs"

text \<open>An OAuth 1 client with static endpoints, and one that also has a discovery URL.\<close>

definition oauth1_app :: remote_app where
  "oauth1_app =
     blank_app\<lparr>request_token_url := Some ''https://idp.example/oauth1/request_token'',
               authorize_url := Some ''https://idp.example/oauth1/authorize'',
               access_token_url := Some ''https://idp.example/oauth1/access_token''\<rparr>"

definition oauth1_world :: world where
  "oauth1_world = \<lparr>app = oauth1_app, trace = []\<rparr>"

definition oauth1_discovery_world :: world where
  "oauth1_discovery_world =
     \<lparr>app = oauth1_app\<lparr>server_metadata_url :=
               Some ''https://idp.example/.well-known/openid-configuration''\<rparr>,
      trace = []\<rparr>"

text \<open>
  A client whose cached JWK set holds only the key \<^verbatim>\<open>k1\<close>, while the provider's
  JWKS URI now serves \<^verbatim>\<open>k2\<close> (the keys were rotated).
\<close>

definition cached_jwks_world :: world where
  "cached_jwks_world =
     \<lparr>app = blank_app\<lparr>server_metadata :=
               of_dict [(''issuer'', JStr ''https://idp.example''),
                        (''jwks_uri'', JStr ''https://idp.example/jwks''),
                        (''jwks'', JObj [(''k1'', JStr ''key-one'')])]\<rparr>,
      trace = []\<rparr>"

text \<open>The same client, for a provider that signs with \<^verbatim>\<open>ES256\<close> only.\<close>

definition es256_world :: world where
  "es256_world =
     \<lparr>app = blank_app\<lparr>server_metadata :=
               of_dict [(''issuer'', JStr ''https://idp.example''),
                        (''id_token_signing_alg_values_supported'', JArr [JStr ''ES256'']),
                        (''jwks'', JObj [(''k1'', JStr ''key-one'')])]\<rparr>,
      trace = []\<rparr>"

text \<open>A client with no metadata at all.\<close>

definition blank_world :: world where
  "blank_world = \<lparr>app = blank_app, trace = []\<rparr>"

text \<open>ID tokens of the concrete provider: algorithm, key id and signing key.\<close>

definition id_token_of :: "string \<Rightarrow> string \<Rightarrow> string \<Rightarrow> json" where
  "id_token_of alg kid signing_key =
     JObj [(''header'', JObj [(''alg'', JStr alg), (''kid'', JStr kid)]),
           (''payload'', JObj [(''iss'', JStr ''https://idp.example''), (''sub'', JStr ''alice''),
                              (''nonce'', JStr ''n-1'')]),
           (''signature'', JStr signing_key)]"

definition token_response :: "json \<Rightarrow> dict" where
  "token_response id_token =
     [(''access_token'', JStr ''at-1''), (''token_type'', JStr ''Bearer''), (''id_token'', id_token)]"

text \<open>
  An OAuth 2 client with static endpoints, one that also has static authorize
  parameters, and a callback whose state is not the one the session holds.
\<close>

definition oauth2_app :: remote_app where
  "oauth2_app =
     blank_app\<lparr>authorize_url := Some ''https://idp.example/authorize'',
               access_token_url := Some ''https://idp.example/token''\<rparr>"

definition oauth2_world :: world where
  "oauth2_world = \<lparr>app = oauth2_app, trace = []\<rparr>"

definition consent_world :: world where
  "consent_world =
     \<lparr>app = oauth2_app\<lparr>authorize_params := Some [(''prompt'', JStr ''consent'')]\<rparr>, trace = []\<rparr>"

definition forged_callback_request :: request where
  "forged_callback_request = callback_request\<lparr>query_params := [(''code'', ''abc''), (''state'', ''s2'')]\<rparr>"

section \<open>Dictionaries\<close>

lemma map_of_fold_update:
  "map_of (fold (\<lambda>(k, v). AList.update k v) e d) k =
     (case map_of (rev e) k of None \<Rightarrow> map_of d k | Some v \<Rightarrow> Some v)"
proof (induction e arbitrary: d)
  case Nil
  then show ?case by simp
next
  case (Cons x e)
  obtain a b where x: "x = (a, b)" by (cases x)
  show ?case
    by (simp add: x Cons.IH update_conv' map_add_def split: option.splits)
qed

lemma map_of_dict_update:
  "map_of (dict_update d e) k =
     (case map_of (rev e) k of None \<Rightarrow> map_of d k | Some v \<Rightarrow> Some v)"
  by (simp add: dict_update_def map_of_fold_update)

lemma map_of_rev_distinct:
  "distinct (map fst e) \<Longrightarrow> map_of (rev e) = map_of e"
  by (metis distinct_rev map_of_inject_set rev_map set_rev)

lemma map_of_rev_None: "map_of (rev e) k = None \<longleftrightarrow> map_of e k = None"
  by (simp add: map_of_eq_None_iff)

lemma distinct_fold_update:
  "distinct (map fst d) \<Longrightarrow> distinct (map fst (fold (\<lambda>(k, v). AList.update k v) e d))"
  by (induction e arbitrary: d) (auto simp: distinct_update)

lemma distinct_dict_update:
  "distinct (map fst d) \<Longrightarrow> distinct (map fst (dict_update d e))"
  by (simp add: dict_update_def distinct_fold_update)

lemma map_of_filter_key:
  "map_of (filter (\<lambda>(k, v). P k) xs) k = (if P k then map_of xs k else None)"
  by (induction xs) auto

lemma dict_get_update_absent:
  assumes "\<not> has_key e k"
  shows "dict_get (dict_update d e) k = dict_get d k"
proof -
  have "map_of e k = None"
    using assms by (simp add: has_key_def split: option.splits)
  then have "map_of (rev e) k = None"
    by (simp add: map_of_rev_None)
  then show ?thesis
    by (simp add: dict_get_def map_of_dict_update)
qed

lemma dict_get_update_present:
  assumes "distinct (map fst e)" and "has_key e k"
  shows "dict_get (dict_update d e) k = dict_get e k"
  using assms
  by (auto simp: dict_get_def has_key_def map_of_dict_update map_of_rev_distinct split: option.splits)

text \<open>
  The parameters of the token exchange that \<open>authorize_access_token\<close> builds for OAuth 2:
  the code of the callback survives the merges unless the caller overrides it.
\<close>

lemma exchange_params_code:
  assumes "\<not> has_key kwargs ''code''"
  shows "dict_get (dict_update kwargs0
            (filter (\<lambda>(k, v). k \<noteq> ''redirect_uri'' \<and> k \<noteq> ''request_token'')
               (dict_update (AList.update ''redirect_uri'' ru [(''code'', c), (''state'', s)]) kwargs)))
          ''code'' = c"
proof -
  let ?base = "AList.update ''redirect_uri'' ru [(''code'', c), (''state'', s)]"
  let ?merged = "dict_update ?base kwargs"
  let ?rest = "filter (\<lambda>(k, v). k \<noteq> ''redirect_uri'' \<and> k \<noteq> ''request_token'') ?merged"
  have d0: "distinct (map fst ?base)" by simp
  have d: "distinct (map fst ?merged)" using d0 by (rule distinct_dict_update)
  have df: "distinct (map fst ?rest)" using d by (rule distinct_map_filter)
  have "map_of kwargs ''code'' = None"
    using assms by (simp add: has_key_def split: option.splits)
  then have n: "map_of (rev kwargs) ''code'' = None"
    by (simp add: map_of_rev_None)
  have p: "map_of ?merged ''code'' = Some c"
    by (simp add: map_of_dict_update n)
  have f: "map_of ?rest ''code'' = Some c"
    using p by (simp add: map_of_filter_key)
  show ?thesis
    using f df by (simp add: dict_get_def map_of_dict_update map_of_rev_distinct)
qed

section \<open>Properties of the request gateway\<close>

lemma request_withhold:
  assumes "truthy (dict_get (kw_rest kwargs) ''withhold_token'')"
  shows "request env m u token kwargs w =
           (transport env (trace w) m (resolve_url env (app w) u) None,
            emit (ClientRequest m (resolve_url env (app w) u) None kwargs) w)"
  using assms by (simp add: request_def client_request_def Let_def)

lemma hook_calls_emit_network:
  "is_network_call e \<Longrightarrow> hook_calls (emit e w) = hook_calls w"
  by (cases e) (simp_all add: hook_calls_def emit_def)

text \<open>
  Claim C7. A call of \<open>request\<close> with a true \<^verbatim>\<open>withhold_token\<close> never invokes the
  token-resolution hook and resolves no token: whatever the explicit token, the hook and
  the inbound request are, the call is exactly one client request that carries no token,
  and its outcome is the transport's (never \<open>MissingTokenError\<close> of the gateway).
\<close>

theorem request_withhold_token_no_resolution:
  assumes "truthy (dict_get (kw_rest kwargs) ''withhold_token'')"
  shows "hook_calls (snd (request env m u token kwargs w)) = hook_calls w
       \<and> request env m u token kwargs w =
           (transport env (trace w) m (resolve_url env (app w) u) None,
            emit (ClientRequest m (resolve_url env (app w) u) None kwargs) w)"
  using assms by (simp add: request_withhold hook_calls_emit_network)

theorem request_withhold_token_no_resolution_witness:
  "truthy (dict_get (kw_rest (withhold_kwargs\<lparr>kw_request := Some callback_request\<rparr>)) ''withhold_token'')
   \<and> hook_calls (snd (request idp_env ''GET'' ''https://idp.example/jwks'' None
        (withhold_kwargs\<lparr>kw_request := Some callback_request\<rparr>) (hooked_world session_token_hook))) = []
   \<and> fst (request idp_env ''GET'' ''https://idp.example/jwks'' None
        (withhold_kwargs\<lparr>kw_request := Some callback_request\<rparr>) (hooked_world session_token_hook))
       = Inr \<lparr>status_code = 200, json_body = Some (JObj [(''k2'', JStr ''key-two'')])\<rparr>"
proof -
  have h: "truthy (dict_get (kw_rest (withhold_kwargs\<lparr>kw_request := Some callback_request\<rparr>)) ''withhold_token'')"
    by (simp add: withhold_kwargs_def dict_get_def)
  show ?thesis
    using h request_withhold_token_no_resolution [OF h, of idp_env "''GET''" "''https://idp.example/jwks''"
        None "hooked_world session_token_hook"]
    by (simp add: hooked_world_def hook_calls_def resolve_url_def blank_app_def idp_env_def
        idp_transport_def emit_def)
qed

text \<open>
  Claim C6. A call of \<open>request\<close> (without \<^verbatim>\<open>withhold_token\<close>) with no explicit token,
  for which the token-resolution hook resolves no token (there is no inbound request, no
  callable hook, or the hook returns None), fails with \<open>MissingTokenError\<close> and makes no
  network call. The method reads no session token of its own: the hook is its only
  source.
\<close>

theorem request_missing_token:
  assumes "\<not> truthy (dict_get (kw_rest kwargs) ''withhold_token'')"
      and "\<And>r. kw_request kwargs = Some r \<Longrightarrow>
             fst (call_fetch_token (fetch_token (app w)) r w) = Inr None"
  shows "fst (request env m u None kwargs w) = Inl MissingTokenError
       \<and> network_calls (snd (request env m u None kwargs w)) = network_calls w"
proof (cases "kw_request kwargs")
  case None
  then show ?thesis using assms(1)
    by (simp add: request_def io_bind_def Let_def)
next
  case (Some r)
  from assms(2)[OF Some] have h: "fst (call_fetch_token (fetch_token (app w)) r w) = Inr None" .
  obtain w' where w': "call_fetch_token (fetch_token (app w)) r w = (Inr None, w')"
    using h by (cases "call_fetch_token (fetch_token (app w)) r w") auto
  have "network_calls w' = network_calls w"
    using w' by (auto simp: call_fetch_token_def network_calls_def emit_def split: hook.splits)
  then show ?thesis using assms(1) Some w'
    by (simp add: request_def io_bind_def Let_def)
qed

theorem request_missing_token_witness:
  "\<not> truthy (dict_get (kw_rest \<lparr>kw_request = Some callback_request, kw_rest = []\<rparr>) ''withhold_token'')
   \<and> fst (call_fetch_token (fetch_token (app (hooked_world empty_hook))) callback_request
            (hooked_world empty_hook)) = Inr None
   \<and> fst (request idp_env ''GET'' ''https://idp.example/user'' None
            \<lparr>kw_request = Some callback_request, kw_rest = []\<rparr> (hooked_world empty_hook))
       = Inl MissingTokenError
   \<and> network_calls (snd (request idp_env ''GET'' ''https://idp.example/user'' None
            \<lparr>kw_request = Some callback_request, kw_rest = []\<rparr> (hooked_world empty_hook))) = []"
proof -
  have h1: "\<not> truthy (dict_get (kw_rest \<lparr>kw_request = Some callback_request, kw_rest = []\<rparr>) ''withhold_token'')"
    by (simp add: dict_get_def)
  have h2: "fst (call_fetch_token (fetch_token (app (hooked_world empty_hook))) r
              (hooked_world empty_hook)) = Inr None" for r
    by (simp add: call_fetch_token_def hooked_world_def empty_hook_def)
  show ?thesis
    using h1 h2 [of callback_request]
      request_missing_token [OF h1 h2, of idp_env "''GET''" "''https://idp.example/user''"]
    by (simp add: network_calls_def hooked_world_def)
qed

text \<open>
  Claim C10. \<open>request\<close> consults the token-resolution hook only when an inbound request is
  passed under the keyword \<^verbatim>\<open>request\<close>: without it no hook call is made, whatever the
  hook is, and with no explicit token (and no \<^verbatim>\<open>withhold_token\<close>) the call raises
  \<open>MissingTokenError\<close> and leaves the world as it was.
\<close>

theorem request_hook_needs_request_context:
  assumes "kw_request kwargs = None"
  shows "hook_calls (snd (request env m u token kwargs w)) = hook_calls w
       \<and> (token = None \<and> \<not> truthy (dict_get (kw_rest kwargs) ''withhold_token'')
            \<longrightarrow> request env m u token kwargs w = (Inl MissingTokenError, w))"
  using assms
  by (cases token)
     (auto simp: request_def io_bind_def client_request_def hook_calls_emit_network Let_def)

theorem request_hook_needs_request_context_witness:
  "kw_request \<lparr>kw_request = None, kw_rest = []\<rparr> = None
   \<and> fetch_token (app (hooked_world session_token_hook)) = session_token_hook
   \<and> request idp_env ''GET'' ''https://idp.example/user'' None \<lparr>kw_request = None, kw_rest = []\<rparr>
        (hooked_world session_token_hook)
       = (Inl MissingTokenError, hooked_world session_token_hook)
   \<and> hook_calls (snd (request idp_env ''GET'' ''https://idp.example/user'' None
        \<lparr>kw_request = None, kw_rest = []\<rparr> (hooked_world session_token_hook))) = []"
proof -
  have h: "kw_request \<lparr>kw_request = None, kw_rest = []\<rparr> = None"
    by simp
  show ?thesis
    using request_hook_needs_request_context [OF h, of idp_env "''GET''" "''https://idp.example/user''"
        None "hooked_world session_token_hook"]
    by (simp add: dict_get_def hooked_world_def hook_calls_def)
qed

section \<open>Properties of the metadata resolver\<close>

lemma norm_key_JStr: "norm_key x = JStr k \<longleftrightarrow> x = JStr k"
  by (cases x) auto

lemma map_of_py_setitem:
  "map_of (py_setitem (JStr k) v d) (JStr s) = (if k = s then Some v else map_of d (JStr s))"
  by (induction d) (auto simp: norm_key_JStr)

lemma map_of_fold_py_setitem:
  "map_of (fold (\<lambda>(k, v). py_setitem (JStr k) v) kvs d) (JStr s) =
     (case map_of (rev kvs) s of None \<Rightarrow> map_of d (JStr s) | Some v \<Rightarrow> Some v)"
proof (induction kvs arbitrary: d)
  case Nil
  then show ?case by simp
next
  case (Cons x kvs)
  obtain a b where x: "x = (a, b)" by (cases x)
  show ?case
    by (simp add: x Cons.IH map_of_py_setitem map_add_def split: option.splits)
qed

lemma py_update_object:
  "py_update d (JObj kvs) = (None, fold (\<lambda>(k, v). py_setitem (JStr k) v) kvs d)"
  by (simp add: py_update_def)

lemma pd_get_py_update_object:
  "pd_get (snd (py_update d (JObj kvs))) k =
     (case map_of (rev kvs) k of None \<Rightarrow> pd_get d k | Some v \<Rightarrow> v)"
  by (simp add: py_update_object pd_get_def map_of_fold_py_setitem split: option.splits)

text \<open>
  \<^verbatim>\<open>update\<close> on bodies that are not objects: an empty list or string changes nothing, a
  list of pairs is merged, and None, a number, a list of numbers or a word raise.
\<close>

lemma py_update_examples:
  "py_update d (JArr []) = (None, d)"
  "py_update d (JStr []) = (None, d)"
  "py_update [] (JArr [JArr [JStr ''a'', JNum 1], JStr ''bc'']) =
     (None, [(JStr ''a'', JNum 1), (JStr ''b'', JStr ''c'')])"
  "py_update d JNull = (Some TypeError, d)"
  "py_update d (JNum 42) = (Some TypeError, d)"
  "py_update d (JArr [JNum 1, JNum 2]) = (Some TypeError, d)"
  "py_update d (JStr ''error'') = (Some ValueError, d)"
  "py_update [] (JArr [JArr [JStr ''a'', JNum 1], JNum 2]) = (Some TypeError, [(JStr ''a'', JNum 1)])"
  by (simp_all add: py_update_def)

lemma fetch_server_metadata_world:
  "snd (fetch_server_metadata env url w) = emit (discovery_call env w url) w"
  by (simp add: fetch_server_metadata_def request_def withhold_kwargs_def dict_get_def
      client_request_def io_bind_def Let_def discovery_call_def split: sum.splits option.splits)

lemma load_server_metadata_idle:
  "\<not> str_truthy (server_metadata_url (app w)) \<Longrightarrow>
     load_server_metadata env w = (Inr (server_metadata (app w)), w)"
  by (simp add: load_server_metadata_def str_truthy_def split: option.splits)

lemma load_server_metadata_pending:
  assumes "server_metadata_url (app w) = Some url" and "url \<noteq> []"
  shows "load_server_metadata env w =
     (case fst (fetch_server_metadata env url w) of
        Inl e \<Rightarrow> (Inl e, emit (discovery_call env w url) w)
      | Inr body \<Rightarrow>
          (case fst (py_update (server_metadata (app w)) body) of
             Some e \<Rightarrow> Inl e
           | None \<Rightarrow> Inr (snd (py_update (server_metadata (app w)) body)),
           (emit (discovery_call env w url) w)
             \<lparr>app := (app w)\<lparr>server_metadata_url := None,
                  server_metadata := snd (py_update (server_metadata (app w)) body)\<rparr>\<rparr>))"
proof -
  obtain r w' where f: "fetch_server_metadata env url w = (r, w')"
    by (cases "fetch_server_metadata env url w")
  have w': "w' = emit (discovery_call env w url) w"
    using fetch_server_metadata_world[of env url w] f by simp
  show ?thesis using assms f w'
    by (cases r)
       (simp_all add: load_server_metadata_def io_bind_def Let_def emit_def split: option.splits)
qed

lemma app_emit [simp]: "app (emit e w) = app w"
  by (simp add: emit_def)

lemma trace_emit [simp]: "trace (emit e w) = trace w @ [e]"
  by (simp add: emit_def)

lemma network_calls_emit:
  "network_calls (emit e w) = network_calls w @ (if is_network_call e then [e] else [])"
  by (simp add: network_calls_def emit_def)

lemma network_calls_app_update: "network_calls (w\<lparr>app := a\<rparr>) = network_calls w"
  by (simp add: network_calls_def)

text \<open>
  Claim C3 (amended). For a RemoteApp with a configured discovery URL, a call of
  \<open>load_server_metadata\<close> makes exactly one discovery request. When the fetch itself
  fails (the transport raises, or the body does not decode), the error is raised and the
  RemoteApp is left as it was, the discovery URL still configured. When the fetch returns
  a decoded body, the discovery URL is cleared and the body is merged into the cached
  metadata by \<^verbatim>\<open>update\<close>: the call returns the cache, or raises the error of
  \<^verbatim>\<open>update\<close> for a body it rejects; in both cases every later call returns the cache
  without any request, whatever the network would answer. A body that is a JSON object
  is never rejected, and each of its entries is then in the cache.
\<close>

theorem load_server_metadata_fetch_once:
  assumes "server_metadata_url (app w) = Some url" and "url \<noteq> []"
      and "load_server_metadata env w = (r, w1)"
  shows "network_calls w1 = network_calls w @ [discovery_call env w url]
       \<and> (case fst (fetch_server_metadata env url w) of
            Inl e \<Rightarrow> r = Inl e \<and> app w1 = app w
          | Inr body \<Rightarrow>
              server_metadata_url (app w1) = None
            \<and> server_metadata (app w1) = snd (py_update (server_metadata (app w)) body)
            \<and> r = (case fst (py_update (server_metadata (app w)) body) of
                     Some e \<Rightarrow> Inl e
                   | None \<Rightarrow> Inr (server_metadata (app w1)))
            \<and> (\<forall>env'. load_server_metadata env' w1 = (Inr (server_metadata (app w1)), w1))
            \<and> (\<forall>kvs. body = JObj kvs \<longrightarrow>
                  r = Inr (server_metadata (app w1))
                \<and> (\<forall>k. pd_get (server_metadata (app w1)) k =
                         (case map_of (rev kvs) k of
                            None \<Rightarrow> pd_get (server_metadata (app w)) k
                          | Some v \<Rightarrow> v))))"
proof (cases "fst (fetch_server_metadata env url w)")
  case (Inl e)
  then show ?thesis
    using assms
    by (auto simp: load_server_metadata_pending network_calls_def emit_def discovery_call_def)
next
  case (Inr body)
  let ?merged = "snd (py_update (server_metadata (app w)) body)"
  let ?w1 = "(emit (discovery_call env w url) w)
             \<lparr>app := (app w)\<lparr>server_metadata_url := None, server_metadata := ?merged\<rparr>\<rparr>"
  have first: "w1 = ?w1"
    and res: "r = (case fst (py_update (server_metadata (app w)) body) of
                     Some e \<Rightarrow> Inl e | None \<Rightarrow> Inr ?merged)"
    using assms Inr by (simp_all add: load_server_metadata_pending)
  have su: "server_metadata_url (app w1) = None"
    and sm: "server_metadata (app w1) = ?merged"
    using first by simp_all
  have res': "r = (case fst (py_update (server_metadata (app w)) body) of
                     Some e \<Rightarrow> Inl e | None \<Rightarrow> Inr (server_metadata (app w1)))"
    using res unfolding sm .
  have idle: "\<not> str_truthy (server_metadata_url (app w1))"
    using su by (simp add: str_truthy_def)
  have again: "\<forall>env'. load_server_metadata env' w1 = (Inr (server_metadata (app w1)), w1)"
    using load_server_metadata_idle[OF idle] by simp
  have calls: "network_calls w1 = network_calls w @ [discovery_call env w url]"
    unfolding first
    by (simp add: network_calls_app_update network_calls_emit discovery_call_def)
  have obj: "\<forall>kvs. body = JObj kvs \<longrightarrow>
                r = Inr (server_metadata (app w1))
              \<and> (\<forall>k. pd_get (server_metadata (app w1)) k =
                      (case map_of (rev kvs) k of
                         None \<Rightarrow> pd_get (server_metadata (app w)) k
                       | Some v \<Rightarrow> v))"
  proof (intro allI impI)
    fix kvs assume b: "body = JObj kvs"
    have "r = Inr (server_metadata (app w1))"
      using res' b by (simp add: py_update_object)
    moreover have "\<forall>k. pd_get (server_metadata (app w1)) k =
                      (case map_of (rev kvs) k of
                         None \<Rightarrow> pd_get (server_metadata (app w)) k
                       | Some v \<Rightarrow> v)"
      unfolding sm b by (simp add: pd_get_py_update_object)
    ultimately show "r = Inr (server_metadata (app w1))
              \<and> (\<forall>k. pd_get (server_metadata (app w1)) k =
                      (case map_of (rev kvs) k of
                         None \<Rightarrow> pd_get (server_metadata (app w)) k
                       | Some v \<Rightarrow> v))"
      by simp
  qed
  show ?thesis
    unfolding Inr sum.case
    using calls su sm res' again obj by blast
qed

text \<open>
  A provider that answers the discovery request with the body \<^verbatim>\<open>null\<close>: the call
  raises the TypeError of \<^verbatim>\<open>update\<close> with the discovery URL already cleared, and the
  next call returns the unchanged cache without a request.
\<close>

lemma load_server_metadata_null_body_example:
  "fst (load_server_metadata null_body_env oidc_world) = Inl TypeError
   \<and> server_metadata_url (app (snd (load_server_metadata null_body_env oidc_world))) = None
   \<and> load_server_metadata null_body_env (snd (load_server_metadata null_body_env oidc_world)) =
       (Inr [], snd (load_server_metadata null_body_env oidc_world))"
  by (simp add: load_server_metadata_def fetch_server_metadata_def request_def io_bind_def
      client_request_def withhold_kwargs_def dict_get_def oidc_world_def null_body_env_def
      idp_env_def blank_app_def resolve_url_def emit_def Let_def py_update_def)

text \<open>
  Claim C3 as stated fails when the provider cannot be reached: the first call raises and
  leaves the discovery URL configured, so the second call fetches again, and two calls
  have made two discovery requests.
\<close>

theorem load_server_metadata_twice_counterexample:
  "server_metadata_url (app oidc_world) = Some ''https://idp.example/.well-known/openid-configuration''
   \<and> length (network_calls (snd (load_server_metadata offline_env
                (snd (load_server_metadata offline_env oidc_world))))) = 2"
  by (simp add: load_server_metadata_def fetch_server_metadata_def request_def io_bind_def
      client_request_def withhold_kwargs_def dict_get_def oidc_world_def offline_env_def
      idp_env_def blank_app_def resolve_url_def emit_def network_calls_def Let_def)

theorem load_server_metadata_fetch_once_witness:
  "server_metadata_url (app oidc_world) = Some ''https://idp.example/.well-known/openid-configuration''
   \<and> ''https://idp.example/.well-known/openid-configuration'' \<noteq> []
   \<and> fst (load_server_metadata idp_env oidc_world) = Inr (of_dict discovery_entries)
   \<and> network_calls (snd (load_server_metadata idp_env oidc_world)) =
       [ClientRequest ''GET'' ''https://idp.example/.well-known/openid-configuration'' None withhold_kwargs]
   \<and> server_metadata_url (app (snd (load_server_metadata idp_env oidc_world))) = None
   \<and> load_server_metadata offline_env (snd (load_server_metadata idp_env oidc_world)) =
       (Inr (of_dict discovery_entries), snd (load_server_metadata idp_env oidc_world))"
proof -
  let ?u = "''https://idp.example/.well-known/openid-configuration''"
  have h1: "server_metadata_url (app oidc_world) = Some ?u"
    by (simp add: oidc_world_def)
  have h2: "?u \<noteq> []"
    by simp
  obtain r w1 where first: "load_server_metadata idp_env oidc_world = (r, w1)"
    by (cases "load_server_metadata idp_env oidc_world")
  have body: "fst (fetch_server_metadata idp_env ?u oidc_world) = Inr discovery_document"
    by (simp add: fetch_server_metadata_def request_def io_bind_def client_request_def
        withhold_kwargs_def dict_get_def oidc_world_def idp_transport_def idp_env_def
        blank_app_def resolve_url_def emit_def Let_def)
  have merged: "py_update (server_metadata (app oidc_world)) discovery_document =
                  (None, of_dict discovery_entries)"
    by (simp add: py_update_def discovery_document_def discovery_entries_def of_dict_def
        oidc_world_def blank_app_def)
  note T = load_server_metadata_fetch_once [OF h1 h2 first]
  have calls: "network_calls w1 = network_calls oidc_world @ [discovery_call idp_env oidc_world ?u]"
    and url: "server_metadata_url (app w1) = None"
    and cache: "server_metadata (app w1) = of_dict discovery_entries"
    and r: "r = Inr (of_dict discovery_entries)"
    and again: "load_server_metadata offline_env w1 = (Inr (of_dict discovery_entries), w1)"
    using T by (simp_all add: body merged)
  have calls': "network_calls w1 = [ClientRequest ''GET'' ?u None withhold_kwargs]"
    using calls
    by (simp add: network_calls_def discovery_call_def resolve_url_def oidc_world_def blank_app_def)
  show ?thesis
    using h1 calls' url again by (simp add: first r)
qed

section \<open>Properties of the OAuth flow drivers\<close>

lemma load_server_metadata_frame:
  assumes "load_server_metadata env w = (r, w1)"
  shows "app w1 = (app w)\<lparr>server_metadata_url := server_metadata_url (app w1),
                          server_metadata := server_metadata (app w1)\<rparr>"
proof (cases "str_truthy (server_metadata_url (app w))")
  case False
  then show ?thesis using assms by (simp add: load_server_metadata_idle)
next
  case True
  then obtain url where u: "server_metadata_url (app w) = Some url" "url \<noteq> []"
    by (auto simp: str_truthy_def split: option.splits)
  show ?thesis
    using assms load_server_metadata_pending[OF u, of env]
    by (auto split: sum.splits)
qed

lemma load_server_metadata_request_token_url:
  assumes "load_server_metadata env w = (r, w1)"
  shows "request_token_url (app w1) = request_token_url (app w)"
  using load_server_metadata_frame[OF assms]
  by (metis remote_app.select_convs(2) remote_app.surjective remote_app.update_convs(9,10))

lemma token_exchanges_emit:
  "token_exchanges (emit e w) = token_exchanges w @ (if is_token_exchange e then [e] else [])"
  by (simp add: token_exchanges_def emit_def)

lemma load_server_metadata_calls:
  assumes "load_server_metadata env w = (r, w1)"
  shows "trace w1 = trace w @
           (case server_metadata_url (app w) of
              None \<Rightarrow> []
            | Some url \<Rightarrow> if url = [] then [] else [discovery_call env w url])"
proof (cases "str_truthy (server_metadata_url (app w))")
  case False
  then show ?thesis using assms
    by (auto simp: load_server_metadata_idle str_truthy_def split: option.splits)
next
  case True
  then obtain url where u: "server_metadata_url (app w) = Some url" "url \<noteq> []"
    by (auto simp: str_truthy_def split: option.splits)
  show ?thesis
    using assms load_server_metadata_pending[OF u, of env] u
    by (auto split: sum.splits)
qed


lemma fetch_access_token_oauth1_none:
  assumes "str_truthy (request_token_url (app w))"
  shows "fetch_access_token env ru JNull params w =
     (case load_server_metadata env w of
        (Inl e, w1) \<Rightarrow> (Inl e, w1)
      | (Inr m, w1) \<Rightarrow>
          (if string_keys m then Inl MissingRequestTokenError else Inl TypeError, w1))"
proof -
  obtain r w1 where l: "load_server_metadata env w = (r, w1)"
    by (cases "load_server_metadata env w")
  have rt: "request_token_url (app w1) = request_token_url (app w)"
    using load_server_metadata_request_token_url[OF l] .
  show ?thesis
    using l rt assms by (cases r) (simp_all add: fetch_access_token_def io_bind_def Let_def)
qed

text \<open>
  Claim C5 (amended). For an OAuth 1 client, \<open>fetch_access_token\<close> without a request
  token always fails and never calls the token endpoint. The metadata is loaded and the
  client is built from it (\<^verbatim>\<open>**metadata\<close>) before the request token is looked at.
  With no discovery URL pending the call leaves the world as it was (no network call)
  and fails with \<open>MissingRequestTokenError\<close>, or with TypeError when a key of the metadata
  is not a string. With a discovery URL pending the call makes that one discovery
  request; then it raises the error of the fetch or of merging its body, if there is
  one, and otherwise fails with \<open>MissingRequestTokenError\<close> (TypeError when a key of the
  merged metadata is not a string).
\<close>

theorem fetch_access_token_missing_request_token:
  assumes "str_truthy (request_token_url (app w))"
  shows "token_exchanges (snd (fetch_access_token env ru JNull params w)) = token_exchanges w
       \<and> (\<exists>e. fst (fetch_access_token env ru JNull params w) = Inl e)
       \<and> (\<not> str_truthy (server_metadata_url (app w)) \<longrightarrow>
            fetch_access_token env ru JNull params w =
              (if string_keys (server_metadata (app w))
               then Inl MissingRequestTokenError else Inl TypeError, w))
       \<and> (\<forall>url. server_metadata_url (app w) = Some url \<and> url \<noteq> [] \<longrightarrow>
            network_calls (snd (fetch_access_token env ru JNull params w)) =
              network_calls w @ [discovery_call env w url]
          \<and> fst (fetch_access_token env ru JNull params w) =
              (case fst (fetch_server_metadata env url w) of
                 Inl e \<Rightarrow> Inl e
               | Inr body \<Rightarrow>
                   (case fst (py_update (server_metadata (app w)) body) of
                      Some e \<Rightarrow> Inl e
                    | None \<Rightarrow>
                        if string_keys (snd (py_update (server_metadata (app w)) body))
                        then Inl MissingRequestTokenError else Inl TypeError)))"
proof (cases "str_truthy (server_metadata_url (app w))")
  case False
  then show ?thesis
    using assms
    by (auto simp: fetch_access_token_oauth1_none load_server_metadata_idle str_truthy_def)
next
  case True
  then obtain url where u: "server_metadata_url (app w) = Some url" "url \<noteq> []"
    by (auto simp: str_truthy_def split: option.splits)
  let ?w1 = "emit (discovery_call env w url) w"
  have tx: "token_exchanges (?w1\<lparr>app := a\<rparr>) = token_exchanges w" for a
    by (simp add: token_exchanges_def emit_def discovery_call_def)
  have nc: "network_calls (?w1\<lparr>app := a\<rparr>) = network_calls w @ [discovery_call env w url]" for a
    by (simp add: network_calls_def emit_def discovery_call_def)
  have tx0: "token_exchanges ?w1 = token_exchanges w"
    by (simp add: token_exchanges_emit discovery_call_def)
  have nc0: "network_calls ?w1 = network_calls w @ [discovery_call env w url]"
    by (simp add: network_calls_emit discovery_call_def)
  show ?thesis
  proof (cases "fst (fetch_server_metadata env url w)")
    case (Inl e)
    then show ?thesis
      using True u tx0 nc0
      by (simp add: fetch_access_token_oauth1_none[OF assms] load_server_metadata_pending[OF u])
  next
    case (Inr body)
    then show ?thesis
      using True u tx nc
      by (cases "fst (py_update (server_metadata (app w)) body)")
         (simp_all add: fetch_access_token_oauth1_none[OF assms] load_server_metadata_pending[OF u])
  qed
qed

theorem fetch_access_token_missing_request_token_witness:
  "str_truthy (request_token_url (app oauth1_world))
   \<and> \<not> str_truthy (server_metadata_url (app oauth1_world))
   \<and> fetch_access_token idp_env JNull JNull [(''oauth_verifier'', JStr ''v-1'')] oauth1_world =
       (Inl MissingRequestTokenError, oauth1_world)
   \<and> network_calls (snd (fetch_access_token idp_env JNull JNull [(''oauth_verifier'', JStr ''v-1'')]
        oauth1_world)) = []"
proof -
  have h: "str_truthy (request_token_url (app oauth1_world))"
    by (simp add: oauth1_world_def oauth1_app_def blank_app_def str_truthy_def)
  have n: "\<not> str_truthy (server_metadata_url (app oauth1_world))"
    by (simp add: oauth1_world_def oauth1_app_def blank_app_def str_truthy_def)
  have r: "fetch_access_token idp_env JNull JNull [(''oauth_verifier'', JStr ''v-1'')] oauth1_world =
       (Inl MissingRequestTokenError, oauth1_world)"
    using fetch_access_token_missing_request_token [OF h, of idp_env JNull "[(''oauth_verifier'', JStr ''v-1'')]"] n
    by (simp add: string_keys_def oauth1_world_def oauth1_app_def blank_app_def)
  show ?thesis
    using h n by (simp add: r) (simp add: network_calls_def oauth1_world_def)
qed

text \<open>
  Claim C5 as stated fails for an OAuth 1 client that still has a discovery URL:
  the call without a request token fails with \<open>MissingRequestTokenError\<close> only after it
  has fetched the discovery document, which is a network call.
\<close>

theorem fetch_access_token_missing_request_token_counterexample:
  "str_truthy (request_token_url (app oauth1_discovery_world))
   \<and> fst (fetch_access_token idp_env JNull JNull [] oauth1_discovery_world) = Inl MissingRequestTokenError
   \<and> network_calls (snd (fetch_access_token idp_env JNull JNull [] oauth1_discovery_world)) =
       [ClientRequest ''GET'' ''https://idp.example/.well-known/openid-configuration'' None withhold_kwargs]"
  by (simp add: fetch_access_token_def load_server_metadata_def fetch_server_metadata_def
      request_def io_bind_def client_request_def withhold_kwargs_def dict_get_def
      oauth1_discovery_world_def oauth1_app_def idp_env_def idp_transport_def blank_app_def
      resolve_url_def emit_def network_calls_def Let_def str_truthy_def str_json_def
      py_update_def discovery_document_def discovery_entries_def string_keys_def)

lemma retrieve_access_token_params_oauth2:
  assumes "\<not> str_truthy (request_token_url a)"
  shows "retrieve_access_token_params a r =
     (if str_json (map_of (query_params r) ''state'') \<noteq> get_session_data r ''state''
      then Inl StateMismatch
      else Inr (AList.update ''redirect_uri'' (get_session_data r ''redirect_uri'')
                  [(''code'', str_json (map_of (query_params r) ''code'')),
                   (''state'', str_json (map_of (query_params r) ''state''))]))"
  using assms
  by (simp add: retrieve_access_token_params_def generate_access_token_params_def dict_get_def
      Let_def)

lemma fetch_access_token_oauth2:
  assumes "\<not> str_truthy (request_token_url (app w))"
  shows "fetch_access_token env ru rt params w =
     (case load_server_metadata env w of
        (Inl e, w1) \<Rightarrow> (Inl e, w1)
      | (Inr m, w1) \<Rightarrow>
          if \<not> string_keys m then (Inl TypeError, w1)
          else
            client_fetch_token env
              (if \<not> truthy (str_json (access_token_url (app w1)))
               then pd_get m ''token_endpoint'' else str_json (access_token_url (app w1)))
              (dict_update
                 (case access_token_params (app w1) of
                    None \<Rightarrow> []
                  | Some p \<Rightarrow> if p \<noteq> [] then dict_update [] p else [])
                 params)
              ru w1)"
proof -
  obtain r w1 where l: "load_server_metadata env w = (r, w1)"
    by (cases "load_server_metadata env w")
  have rt: "request_token_url (app w1) = request_token_url (app w)"
    using load_server_metadata_request_token_url[OF l] .
  show ?thesis
    using l rt assms by (cases r) (simp_all add: fetch_access_token_def io_bind_def Let_def)
qed

text \<open>
  Claim C4. In the OAuth 2 flow, when the \<^verbatim>\<open>state\<close> of the callback query differs from
  the state the session holds, \<open>authorize_access_token\<close> fails with \<open>StateMismatch\<close> and
  leaves the world as it was, so before any network call. With matching state (and no
  \<^verbatim>\<open>code\<close> among the caller's keyword arguments) the metadata is resolved and, unless
  that fails, the call is one token exchange whose parameters carry the \<^verbatim>\<open>code\<close> of
  the callback query. (The client is built from \<^verbatim>\<open>**metadata\<close>: were a key of the
  resolved metadata not a string, Python would raise TypeError there, and no exchange
  would be made.)
\<close>

theorem authorize_access_token_state_and_code:
  assumes "\<not> str_truthy (request_token_url (app w))"
  shows "(str_json (map_of (query_params r) ''state'') \<noteq> get_session_data r ''state'' \<longrightarrow>
            authorize_access_token env r kwargs w = (Inl StateMismatch, w))
       \<and> (str_json (map_of (query_params r) ''state'') = get_session_data r ''state''
            \<and> \<not> has_key kwargs ''code'' \<longrightarrow>
            (case load_server_metadata env w of
               (Inl e, w1) \<Rightarrow> authorize_access_token env r kwargs w = (Inl e, w1)
             | (Inr m, w1) \<Rightarrow>
                 if string_keys m
                 then (\<exists>ep kw ru.
                    authorize_access_token env r kwargs w =
                      (token_endpoint env (trace w1) ep kw, emit (FetchToken ep kw ru) w1)
                  \<and> dict_get kw ''code'' = str_json (map_of (query_params r) ''code''))
                 else authorize_access_token env r kwargs w = (Inl TypeError, w1)))"
proof (intro conjI impI)
  assume "str_json (map_of (query_params r) ''state'') \<noteq> get_session_data r ''state''"
  then show "authorize_access_token env r kwargs w = (Inl StateMismatch, w)"
    by (simp add: authorize_access_token_def retrieve_access_token_params_oauth2[OF assms])
next
  assume a: "str_json (map_of (query_params r) ''state'') = get_session_data r ''state''
             \<and> \<not> has_key kwargs ''code''"
  obtain res w1 where l: "load_server_metadata env w = (res, w1)"
    by (cases "load_server_metadata env w")
  show "case load_server_metadata env w of
          (Inl e, w1) \<Rightarrow> authorize_access_token env r kwargs w = (Inl e, w1)
        | (Inr m, w1) \<Rightarrow>
            if string_keys m
            then (\<exists>ep kw ru.
               authorize_access_token env r kwargs w =
                 (token_endpoint env (trace w1) ep kw, emit (FetchToken ep kw ru) w1)
             \<and> dict_get kw ''code'' = str_json (map_of (query_params r) ''code''))
            else authorize_access_token env r kwargs w = (Inl TypeError, w1)"
  proof (cases res)
    case (Inl e)
    then show ?thesis
      using a l
      by (simp add: authorize_access_token_def retrieve_access_token_params_oauth2[OF assms]
          fetch_access_token_oauth2[OF assms] Let_def)
  next
    case (Inr m)
    have nc: "\<not> has_key kwargs ''code''" using a by simp
    let ?code = "str_json (map_of (query_params r) ''code'')"
    let ?merged = "dict_update (AList.update ''redirect_uri'' (get_session_data r ''redirect_uri'')
                      [(''code'', ?code), (''state'', str_json (map_of (query_params r) ''state''))]) kwargs"
    let ?kw = "dict_update
                 (case access_token_params (app w1) of
                    None \<Rightarrow> []
                  | Some p \<Rightarrow> if p \<noteq> [] then dict_update [] p else [])
                 (filter (\<lambda>(k, v). k \<noteq> ''redirect_uri'' \<and> k \<noteq> ''request_token'') ?merged)"
    let ?ep = "if \<not> truthy (str_json (access_token_url (app w1)))
               then pd_get m ''token_endpoint'' else str_json (access_token_url (app w1))"
    let ?ru = "dict_get ?merged ''redirect_uri''"
    show ?thesis
    proof (cases "string_keys m")
      case False
      then show ?thesis
        using a l Inr
        by (simp add: authorize_access_token_def retrieve_access_token_params_oauth2[OF assms]
            fetch_access_token_oauth2[OF assms] Let_def)
    next
      case True
      have run: "authorize_access_token env r kwargs w =
                   (token_endpoint env (trace w1) ?ep ?kw, emit (FetchToken ?ep ?kw ?ru) w1)"
        using a l Inr True
        by (simp add: authorize_access_token_def retrieve_access_token_params_oauth2[OF assms]
            fetch_access_token_oauth2[OF assms] Let_def client_fetch_token_def)
      have code: "dict_get ?kw ''code'' = ?code"
        by (rule exchange_params_code[OF nc])
      show ?thesis
        using l Inr True run code by (simp del: AList.update.simps) blast
    qed
  qed
qed


theorem authorize_access_token_state_and_code_witness:
  "\<not> str_truthy (request_token_url (app oauth2_world))
   \<and> str_json (map_of (query_params forged_callback_request) ''state'')
        \<noteq> get_session_data forged_callback_request ''state''
   \<and> authorize_access_token idp_env forged_callback_request [] oauth2_world =
        (Inl StateMismatch, oauth2_world)
   \<and> str_json (map_of (query_params callback_request) ''state'')
        = get_session_data callback_request ''state''
   \<and> \<not> has_key [] ''code''
   \<and> snd (authorize_access_token idp_env callback_request [] oauth2_world) =
        emit (FetchToken (JStr ''https://idp.example/token'')
                [(''code'', JStr ''abc''), (''state'', JStr ''s1'')] (JStr ''https://app/cb''))
          oauth2_world"
proof -
  have h: "\<not> str_truthy (request_token_url (app oauth2_world))"
    by (simp add: oauth2_world_def oauth2_app_def blank_app_def str_truthy_def)
  have m: "str_json (map_of (query_params forged_callback_request) ''state'')
        \<noteq> get_session_data forged_callback_request ''state''"
    by (simp add: forged_callback_request_def callback_request_def get_session_data_def
        dict_get_def str_json_def)
  have e: "str_json (map_of (query_params callback_request) ''state'')
        = get_session_data callback_request ''state''"
    by (simp add: callback_request_def get_session_data_def dict_get_def str_json_def)
  have r: "authorize_access_token idp_env forged_callback_request [] oauth2_world =
        (Inl StateMismatch, oauth2_world)"
    using authorize_access_token_state_and_code [OF h, of forged_callback_request idp_env "[]"] m
    by simp
  have x: "snd (authorize_access_token idp_env callback_request [] oauth2_world) =
        emit (FetchToken (JStr ''https://idp.example/token'')
                [(''code'', JStr ''abc''), (''state'', JStr ''s1'')] (JStr ''https://app/cb''))
          oauth2_world"
    by (simp add: authorize_access_token_def retrieve_access_token_params_def
        generate_access_token_params_def fetch_access_token_def load_server_metadata_def
        client_fetch_token_def io_bind_def get_session_data_def dict_get_def dict_update_def
        str_json_def str_truthy_def callback_request_def oauth2_world_def oauth2_app_def
        blank_app_def Let_def string_keys_def)
  show ?thesis
    using h m e r x by (simp add: has_key_def)
qed

lemma load_server_metadata_static:
  assumes "load_server_metadata env w = (r, w1)"
  shows "request_token_url (app w1) = request_token_url (app w)"
    and "authorize_url (app w1) = authorize_url (app w)"
    and "authorize_params (app w1) = authorize_params (app w)"
    and "client_id (app w1) = client_id (app w)"
  using arg_cong[OF load_server_metadata_frame[OF assms], of request_token_url]
        arg_cong[OF load_server_metadata_frame[OF assms], of authorize_url]
        arg_cong[OF load_server_metadata_frame[OF assms], of authorize_params]
        arg_cong[OF load_server_metadata_frame[OF assms], of client_id]
  by simp_all

text \<open>
  What \<open>create_authorization_url\<close> returns for an OAuth 2 client: the URL holds the client
  id, the redirect URI, the state and the merged parameters, and the merge is
  \<^verbatim>\<open>kwargs.update(self.authorize_params)\<close>: a key of the static parameters takes the
  static value, any other key the caller's.
\<close>

lemma create_authorization_url_oauth2_merge:
  assumes "\<not> str_truthy (request_token_url (app w))"
      and "p = (case authorize_params (app w) of None \<Rightarrow> [] | Some q \<Rightarrow> q)"
      and "distinct (map fst p)"
      and "create_authorization_url env ru kwargs w = (Inr d, w')"
  shows "\<exists>ep st merged.
           ad_url d = OAuth2Url ep (client_id (app w)) ru st merged
         \<and> truthy ep
         \<and> ad_state d = Some st
         \<and> st = (if dict_get merged ''state'' = JNull then JStr (generate_token env (trace w'))
                  else dict_get merged ''state'')
         \<and> (\<forall>k. dict_get merged k = (if has_key p k then dict_get p k else dict_get kwargs k))"
proof -
  obtain r w1 where l: "load_server_metadata env w = (r, w1)"
    by (cases "load_server_metadata env w")
  note st = load_server_metadata_static[OF l]
  obtain m where r: "r = Inr m"
    using assms(4) l by (cases r) (simp_all add: create_authorization_url_def io_bind_def)
  let ?merged = "dict_update kwargs p"
  let ?ep = "if \<not> truthy (str_json (authorize_url (app w)))
             then pd_get m ''authorization_endpoint'' else str_json (authorize_url (app w))"
  let ?st = "if dict_get ?merged ''state'' = JNull then JStr (generate_token env (trace w1))
             else dict_get ?merged ''state''"
  have kw: "(case authorize_params (app w) of None \<Rightarrow> kwargs
             | Some q \<Rightarrow> if q \<noteq> [] then dict_update kwargs q else kwargs) = ?merged"
    using assms(2) by (simp add: dict_update_def split: option.splits)
  have run: "truthy ?ep \<and> w' = w1 \<and>
             d = \<lparr>ad_url = OAuth2Url ?ep (client_id (app w)) ru ?st ?merged,
                  ad_request_token = None, ad_state = Some ?st\<rparr>"
    using assms(1,4) l r st kw
    by (auto simp: create_authorization_url_def io_bind_def Let_def
        create_oauth2_authorization_url_def split: if_splits)
  have look: "dict_get ?merged k = (if has_key p k then dict_get p k else dict_get kwargs k)" for k
    using dict_get_update_present[OF assms(3), of k kwargs] dict_get_update_absent[of p k kwargs]
    by simp
  show ?thesis
    using run look by (intro exI[of _ ?ep] exI[of _ ?st] exI[of _ ?merged]) simp
qed

text \<open>
  Claim C9, at the input where the code departs from it. The client is configured with
  the static parameter \<^verbatim>\<open>prompt=consent\<close>; the caller passes \<^verbatim>\<open>prompt=none\<close>. The
  URL holds the client id, the redirect URI and a generated state, as the claim says,
  but its \<^verbatim>\<open>prompt\<close> is the static \<^verbatim>\<open>consent\<close>: the caller's value is lost.
\<close>

theorem create_authorization_url_caller_override_lost:
  "authorize_params (app consent_world) = Some [(''prompt'', JStr ''consent'')]
   \<and> fst (create_authorization_url idp_env (JStr ''https://app/cb'') [(''prompt'', JStr ''none'')]
            consent_world) =
       Inr \<lparr>ad_url = OAuth2Url (JStr ''https://idp.example/authorize'') ''cid''
                       (JStr ''https://app/cb'') (JStr ''generated-state'')
                       [(''prompt'', JStr ''consent'')],
            ad_request_token = None, ad_state = Some (JStr ''generated-state'')\<rparr>"
  by (simp add: create_authorization_url_def create_oauth2_authorization_url_def
      load_server_metadata_def io_bind_def dict_get_def dict_update_def str_json_def
      str_truthy_def consent_world_def oauth2_app_def blank_app_def idp_env_def Let_def
      string_keys_def)

text \<open>
  The sibling merge of the same file gives the caller precedence: in the token exchange
  of \<open>fetch_access_token\<close> the static \<^verbatim>\<open>access_token_params\<close> are written first and the
  caller's parameters over them.
\<close>

lemma fetch_access_token_caller_overrides_example:
  "snd (fetch_access_token idp_env JNull JNull [(''scope'', JStr ''caller'')]
         (oauth2_world\<lparr>app := oauth2_app\<lparr>access_token_params := Some [(''scope'', JStr ''static'')]\<rparr>\<rparr>)) =
     emit (FetchToken (JStr ''https://idp.example/token'') [(''scope'', JStr ''caller'')] JNull)
       (oauth2_world\<lparr>app := oauth2_app\<lparr>access_token_params := Some [(''scope'', JStr ''static'')]\<rparr>\<rparr>)"
  by (simp add: fetch_access_token_def load_server_metadata_def client_fetch_token_def
      io_bind_def dict_update_def str_json_def str_truthy_def oauth2_world_def oauth2_app_def
      blank_app_def Let_def string_keys_def)

section \<open>Properties of the ID token verifier\<close>

text \<open>
  Claim C8. For a token mapping without the key \<^verbatim>\<open>id_token\<close>, \<open>parse_id_token\<close>
  returns None as a value, not an exception, and does nothing else: no metadata is
  loaded, no key is fetched, nothing is validated, and the world is unchanged.
\<close>

theorem parse_id_token_without_id_token:
  assumes "\<not> has_key token ''id_token''"
  shows "parse_id_token env r token claims_options w = (Inr None, w)"
  using assms by (simp add: parse_id_token_def)

theorem parse_id_token_without_id_token_witness:
  "\<not> has_key [(''access_token'', JStr ''at-1''), (''token_type'', JStr ''Bearer'')] ''id_token''
   \<and> parse_id_token offline_env callback_request
        [(''access_token'', JStr ''at-1''), (''token_type'', JStr ''Bearer'')] JNull oidc_world
       = (Inr None, oidc_world)"
proof -
  have h: "\<not> has_key [(''access_token'', JStr ''at-1''), (''token_type'', JStr ''Bearer'')] ''id_token''"
    by (simp add: has_key_def)
  show ?thesis
    using h parse_id_token_without_id_token [OF h, of offline_env callback_request JNull oidc_world]
    by simp
qed

lemma parse_id_token_unfold:
  assumes "has_key token ''id_token''"
  shows "parse_id_token env r token opts w =
     (case load_server_metadata env w of
        (Inl e, w1) \<Rightarrow> (Inl e, w1)
      | (Inr m, w1) \<Rightarrow>
          (case fetch_jwk_set env False w1 of
             (Inl e, w2) \<Rightarrow> (Inl e, w2)
           | (Inr ks, w2) \<Rightarrow>
               (case jwt_decode env (id_token_alg_values m)
                       (\<lambda>header payload. jwk_loads env ks (dict_get header ''kid''))
                       (dict_get token ''id_token'') of
                  Inl e \<Rightarrow> (Inl e, w2)
                | Inr claims \<Rightarrow>
                    if claims_validate env (claims_cls_of token) (claims_options_of opts m)
                         (claims_params_of (app w) r token) claims 120
                    then (Inr (Some claims), w2) else (Inl InvalidIDToken, w2))))"
  using assms
  by (simp add: parse_id_token_def io_bind_def Let_def split: prod.splits sum.splits)

lemma request_verify_signature:
  "request (env\<lparr>verify_signature := vs\<rparr>) = request env"
  by (rule ext)+
     (simp add: request_def io_bind_def client_request_def resolve_url_def Let_def
        split: option.splits prod.splits sum.splits)

lemma fetch_server_metadata_verify_signature:
  "fetch_server_metadata (env\<lparr>verify_signature := vs\<rparr>) = fetch_server_metadata env"
  by (rule ext)+ (simp add: fetch_server_metadata_def request_verify_signature)

lemma load_server_metadata_verify_signature:
  "load_server_metadata (env\<lparr>verify_signature := vs\<rparr>) = load_server_metadata env"
  by (rule ext)
     (simp add: load_server_metadata_def fetch_server_metadata_verify_signature
        split: option.splits)

lemma fetch_jwk_set_verify_signature:
  "fetch_jwk_set (env\<lparr>verify_signature := vs\<rparr>) = fetch_jwk_set env"
  by (rule ext)+
     (simp add: fetch_jwk_set_def load_server_metadata_verify_signature
        fetch_server_metadata_verify_signature cong: if_cong json.case_cong)

text \<open>
  Claim C2 (amended). \<open>parse_id_token\<close> takes the allowed algorithms from the entry
  \<^verbatim>\<open>id_token_signing_alg_values_supported\<close> of the resolved metadata, and exactly
  \<^verbatim>\<open>["RS256"]\<close> when the entry is absent (or empty). An ID token whose \<^verbatim>\<open>alg\<close> is
  not a member of that list is never accepted, whatever the signature check would say:
  once the JWK set is resolved the call fails with \<open>InvalidIDToken\<close>; when resolving the
  JWK set fails first (a transport error, or no \<^verbatim>\<open>jwks_uri\<close>), that error is raised
  instead. A token whose \<^verbatim>\<open>alg\<close> is a member of the list goes on to the key lookup,
  the signature check and the claims validation, and is accepted when they succeed.
\<close>

theorem parse_id_token_alg_allow_list:
  assumes "has_key token ''id_token''"
      and "load_server_metadata env w = (Inr m, w1)"
      and "jws_parse env (dict_get token ''id_token'') = Some j"
      and "allowed = (if truthy (pd_get m ''id_token_signing_alg_values_supported'')
                      then pd_get m ''id_token_signing_alg_values_supported''
                      else JArr [JStr ''RS256''])"
  shows "(\<not> pd_has_key m ''id_token_signing_alg_values_supported'' \<longrightarrow>
            allowed = JArr [JStr ''RS256''])
       \<and> ((\<forall>xs. allowed = JArr xs \<longrightarrow> dict_get (jws_header j) ''alg'' \<notin> set xs) \<longrightarrow>
            (\<forall>vs. parse_id_token (env\<lparr>verify_signature := vs\<rparr>) r token opts w =
               (case fetch_jwk_set env False w1 of
                  (Inl e, w2) \<Rightarrow> (Inl e, w2)
                | (Inr ks, w2) \<Rightarrow> (Inl InvalidIDToken, w2))))
       \<and> ((\<exists>xs. allowed = JArr xs \<and> dict_get (jws_header j) ''alg'' \<in> set xs) \<longrightarrow>
            parse_id_token env r token opts w =
              (case fetch_jwk_set env False w1 of
                 (Inl e, w2) \<Rightarrow> (Inl e, w2)
               | (Inr ks, w2) \<Rightarrow>
                   (case jwk_loads env ks (dict_get (jws_header j) ''kid'') of
                      Inl e \<Rightarrow> (Inl e, w2)
                    | Inr key \<Rightarrow>
                        if verify_signature env key j
                           \<and> claims_validate env (claims_cls_of token) (claims_options_of opts m)
                               (claims_params_of (app w) r token) (jws_payload j) 120
                        then (Inr (Some (jws_payload j)), w2)
                        else (Inl InvalidIDToken, w2))))"
proof -
  have al: "id_token_alg_values m = allowed"
    using assms(4) by (simp add: id_token_alg_values_def Let_def)
  have d: "\<not> pd_has_key m ''id_token_signing_alg_values_supported'' \<longrightarrow>
            allowed = JArr [JStr ''RS256'']"
    using assms(4) by (simp add: pd_has_key_def pd_get_def split: option.splits)
  have rej: "parse_id_token (env\<lparr>verify_signature := vs\<rparr>) r token opts w =
               (case fetch_jwk_set env False w1 of
                  (Inl e, w2) \<Rightarrow> (Inl e, w2)
                | (Inr ks, w2) \<Rightarrow> (Inl InvalidIDToken, w2))"
    if out: "\<forall>xs. allowed = JArr xs \<longrightarrow> dict_get (jws_header j) ''alg'' \<notin> set xs" for vs
  proof -
    have na: "\<not> alg_allowed allowed (dict_get (jws_header j) ''alg'')"
      using out by (cases allowed) (simp_all add: alg_allowed_def)
    have dec: "jwt_decode (env\<lparr>verify_signature := vs\<rparr>) allowed lk
                 (dict_get token ''id_token'') = Inl InvalidIDToken" for lk
      using assms(3) na by (simp add: jwt_decode_def)
    show ?thesis
      using assms(2)
      by (simp add: parse_id_token_unfold[OF assms(1)] load_server_metadata_verify_signature
          fetch_jwk_set_verify_signature al dec split: prod.splits sum.splits)
  qed
  have acc: "parse_id_token env r token opts w =
              (case fetch_jwk_set env False w1 of
                 (Inl e, w2) \<Rightarrow> (Inl e, w2)
               | (Inr ks, w2) \<Rightarrow>
                   (case jwk_loads env ks (dict_get (jws_header j) ''kid'') of
                      Inl e \<Rightarrow> (Inl e, w2)
                    | Inr key \<Rightarrow>
                        if verify_signature env key j
                           \<and> claims_validate env (claims_cls_of token) (claims_options_of opts m)
                               (claims_params_of (app w) r token) (jws_payload j) 120
                        then (Inr (Some (jws_payload j)), w2)
                        else (Inl InvalidIDToken, w2)))"
    if mem: "\<exists>xs. allowed = JArr xs \<and> dict_get (jws_header j) ''alg'' \<in> set xs"
  proof -
    have ok: "alg_allowed allowed (dict_get (jws_header j) ''alg'')"
      using mem by (auto simp: alg_allowed_def)
    have dec: "jwt_decode env allowed lk (dict_get token ''id_token'') =
                 (case lk (jws_header j) (jws_payload j) of
                    Inl e \<Rightarrow> Inl e
                  | Inr key \<Rightarrow> if verify_signature env key j then Inr (jws_payload j)
                               else Inl InvalidIDToken)" for lk
      using assms(3) ok by (simp add: jwt_decode_def)
    show ?thesis
      using assms(2)
      by (simp add: parse_id_token_unfold[OF assms(1)] al dec split: prod.splits sum.splits)
  qed
  show ?thesis
    using d rej acc by blast
qed

lemmas run_defs =
  parse_id_token_def fetch_jwk_set_def load_server_metadata_def fetch_server_metadata_def
  request_def client_request_def io_bind_def resolve_url_def emit_def Let_def
  jwt_decode_def alg_allowed_def id_token_alg_values_def get_session_data_def
  claims_cls_of_def claims_params_of_def claims_options_of_def
  dict_get_def has_key_def pd_get_def pd_has_key_def of_dict_def
  str_truthy_def str_json_def withhold_kwargs_def

lemmas idp_defs =
  idp_env_def idp_transport_def idp_jws_parse_def jwk_loads_by_kid_def blank_app_def
  id_token_of_def token_response_def callback_request_def discovery_document_def
  discovery_entries_def

theorem parse_id_token_alg_allow_list_witness:
  "has_key (token_response (id_token_of ''RS256'' ''k1'' ''key-one'')) ''id_token''
   \<and> load_server_metadata idp_env es256_world = (Inr (server_metadata (app es256_world)), es256_world)
   \<and> pd_get (server_metadata (app es256_world)) ''id_token_signing_alg_values_supported''
        = JArr [JStr ''ES256'']
   \<and> parse_id_token (idp_env\<lparr>verify_signature := (\<lambda>key j. True)\<rparr>) callback_request
        (token_response (id_token_of ''RS256'' ''k1'' ''key-one'')) JNull es256_world =
       (Inl InvalidIDToken, es256_world)
   \<and> parse_id_token idp_env callback_request
        (token_response (id_token_of ''ES256'' ''k1'' ''key-one'')) JNull es256_world =
       (Inr (Some [(''iss'', JStr ''https://idp.example''), (''sub'', JStr ''alice''),
                   (''nonce'', JStr ''n-1'')]), es256_world)
   \<and> \<not> pd_has_key (server_metadata (app cached_jwks_world)) ''id_token_signing_alg_values_supported''
   \<and> parse_id_token (idp_env\<lparr>verify_signature := (\<lambda>key j. True)\<rparr>) callback_request
        (token_response (id_token_of ''HS256'' ''k1'' ''key-one'')) JNull cached_jwks_world =
       (Inl InvalidIDToken, cached_jwks_world)"
proof -
  let ?payload = "[(''iss'', JStr ''https://idp.example''), (''sub'', JStr ''alice''),
                   (''nonce'', JStr ''n-1'')]"
  let ?K = "''id_token_signing_alg_values_supported''"
  have jw: "jws_parse idp_env (dict_get (token_response (id_token_of alg ''k1'' ''key-one'')) ''id_token'') =
              Some \<lparr>jws_header = [(''alg'', JStr alg), (''kid'', JStr ''k1'')],
                    jws_payload = ?payload, jws_signature = ''key-one''\<rparr>" for alg
    by (simp add: idp_defs dict_get_def)
  have hk: "has_key (token_response (id_token_of alg ''k1'' ''key-one'')) ''id_token''" for alg
    by (simp add: has_key_def token_response_def)
  have le: "load_server_metadata idp_env es256_world = (Inr (server_metadata (app es256_world)), es256_world)"
    by (simp add: load_server_metadata_def es256_world_def blank_app_def)
  have lc: "load_server_metadata idp_env cached_jwks_world =
              (Inr (server_metadata (app cached_jwks_world)), cached_jwks_world)"
    by (simp add: load_server_metadata_def cached_jwks_world_def blank_app_def)
  have ae: "pd_get (server_metadata (app es256_world)) ?K = JArr [JStr ''ES256'']"
    by (simp add: es256_world_def blank_app_def pd_get_def of_dict_def)
  have ac: "pd_get (server_metadata (app cached_jwks_world)) ?K = JNull"
    by (simp add: cached_jwks_world_def blank_app_def pd_get_def of_dict_def)
  have nk: "\<not> pd_has_key (server_metadata (app cached_jwks_world)) ?K"
    by (simp add: cached_jwks_world_def blank_app_def pd_has_key_def of_dict_def)
  have alle: "JArr [JStr ''ES256''] =
                (if truthy (pd_get (server_metadata (app es256_world)) ?K)
                 then pd_get (server_metadata (app es256_world)) ?K else JArr [JStr ''RS256''])"
    by (simp add: ae)
  have allc: "JArr [JStr ''RS256''] =
                (if truthy (pd_get (server_metadata (app cached_jwks_world)) ?K)
                 then pd_get (server_metadata (app cached_jwks_world)) ?K else JArr [JStr ''RS256''])"
    by (simp add: ac)
  have je: "fetch_jwk_set idp_env False es256_world =
              (Inr (JObj [(''k1'', JStr ''key-one'')]), es256_world)"
    by (simp add: fetch_jwk_set_def le io_bind_def)
       (simp add: es256_world_def blank_app_def pd_get_def of_dict_def Let_def)
  have jc: "fetch_jwk_set idp_env False cached_jwks_world =
              (Inr (JObj [(''k1'', JStr ''key-one'')]), cached_jwks_world)"
    by (simp add: fetch_jwk_set_def lc io_bind_def)
       (simp add: cached_jwks_world_def blank_app_def pd_get_def of_dict_def Let_def)
  have r1: "parse_id_token (idp_env\<lparr>verify_signature := (\<lambda>key j. True)\<rparr>) callback_request
        (token_response (id_token_of ''RS256'' ''k1'' ''key-one'')) JNull es256_world =
       (Inl InvalidIDToken, es256_world)"
    using parse_id_token_alg_allow_list [OF hk le jw alle, of "''RS256''" callback_request JNull]
    by (simp add: je dict_get_def)
  have r2: "parse_id_token idp_env callback_request
        (token_response (id_token_of ''ES256'' ''k1'' ''key-one'')) JNull es256_world =
       (Inr (Some ?payload), es256_world)"
    using parse_id_token_alg_allow_list [OF hk le jw alle, of "''ES256''" callback_request JNull]
    by (simp add: je dict_get_def) (simp add: idp_env_def jwk_loads_by_kid_def)
  have r3: "parse_id_token (idp_env\<lparr>verify_signature := (\<lambda>key j. True)\<rparr>) callback_request
        (token_response (id_token_of ''HS256'' ''k1'' ''key-one'')) JNull cached_jwks_world =
       (Inl InvalidIDToken, cached_jwks_world)"
    using parse_id_token_alg_allow_list [OF hk lc jw allc, of "''HS256''" callback_request JNull]
    by (simp add: jc dict_get_def)
  show ?thesis
    using hk le ae nk r1 r2 r3 by simp
qed

text \<open>
  Claim C2 as stated fails for a client whose metadata has neither \<^verbatim>\<open>jwks\<close> nor
  \<^verbatim>\<open>jwks_uri\<close>: the JWK set is fetched before the token is decoded, so the token with
  the algorithm \<^verbatim>\<open>HS256\<close> is rejected with the RuntimeError of the missing JWKS URI,
  not with \<open>InvalidIDToken\<close>.
\<close>

theorem parse_id_token_alg_allow_list_counterexample:
  "has_key (token_response (id_token_of ''HS256'' ''k1'' ''key-one'')) ''id_token''
   \<and> pd_get (server_metadata (app blank_world)) ''id_token_signing_alg_values_supported'' = JNull
   \<and> JStr ''HS256'' \<notin> set [JStr ''RS256'']
   \<and> parse_id_token idp_env callback_request
        (token_response (id_token_of ''HS256'' ''k1'' ''key-one'')) JNull blank_world =
       (Inl missing_jwks_uri, blank_world)
   \<and> missing_jwks_uri \<noteq> InvalidIDToken"
  by (simp add: run_defs idp_defs blank_world_def missing_jwks_uri_def)

text \<open>
  With a cached JWK set and no discovery pending, a verification makes no request at all,
  whatever the key lookup answers: \<open>parse_id_token\<close> calls \<open>fetch_jwk_set\<close> once,
  without \<^verbatim>\<open>force\<close>.
\<close>

lemma fetch_jwk_set_cached:
  assumes "\<not> str_truthy (server_metadata_url (app w))"
      and "truthy (pd_get (server_metadata (app w)) ''jwks'')"
  shows "fetch_jwk_set env False w = (Inr (pd_get (server_metadata (app w)) ''jwks''), w)"
  using assms
  by (simp add: fetch_jwk_set_def load_server_metadata_idle io_bind_def Let_def)

lemma parse_id_token_cached_jwks_no_request:
  assumes "\<not> str_truthy (server_metadata_url (app w))"
      and "truthy (pd_get (server_metadata (app w)) ''jwks'')"
  shows "snd (parse_id_token env r token opts w) = w"
proof (cases "has_key token ''id_token''")
  case False
  then show ?thesis by (simp add: parse_id_token_def)
next
  case True
  show ?thesis
    by (simp add: parse_id_token_unfold[OF True] load_server_metadata_idle[OF assms(1)]
        fetch_jwk_set_cached[OF assms] split: sum.splits)
qed

text \<open>
  Claim C1, at the input where the code departs from it. The cached JWK set holds
  \<^verbatim>\<open>k1\<close>; the token names \<^verbatim>\<open>k2\<close>, which the provider's JWKS URI serves. The
  verification looks the key up once in the cached set and fails; it makes no request
  (the world is unchanged, the trace stays empty), although a forced fetch of the JWK set
  returns a set in which the lookup succeeds.
\<close>

theorem parse_id_token_no_forced_refresh:
  "parse_id_token idp_env callback_request
        (token_response (id_token_of ''RS256'' ''k2'' ''key-two'')) JNull cached_jwks_world =
       (Inl (JoseError ''key not found''), cached_jwks_world)
   \<and> trace cached_jwks_world = []
   \<and> fst (fetch_jwk_set idp_env True cached_jwks_world) = Inr (JObj [(''k2'', JStr ''key-two'')])
   \<and> jwk_loads idp_env (JObj [(''k2'', JStr ''key-two'')]) (JStr ''k2'') = Inr (JStr ''key-two'')"
  by (simp add: run_defs idp_defs cached_jwks_world_def)

text \<open>
  For comparison, the token that names the cached key \<^verbatim>\<open>k1\<close> with the default
  algorithm is accepted.
\<close>

lemma parse_id_token_accepts_example:
  "parse_id_token idp_env callback_request
        (token_response (id_token_of ''RS256'' ''k1'' ''key-one'')) JNull cached_jwks_world =
       (Inr (Some [(''iss'', JStr ''https://idp.example''), (''sub'', JStr ''alice''),
                   (''nonce'', JStr ''n-1'')]), cached_jwks_world)"
  by (simp add: run_defs idp_defs cached_jwks_world_def)

end
